theory Spec2Isabelle
  imports Main
begin

section \<open>Data model of pkg/apiclient/client\_factory.go\<close>

text \<open>
  Errors are values. \<open>ErrorString\<close> is what \<^verbatim>\<open>errors.New\<close> and \<^verbatim>\<open>fmt.Errorf\<close>
  (without \<^verbatim>\<open>%w\<close>) build: a fresh error holding only a message. An \<open>ext_error\<close> is an
  error value produced outside this package (the SDK, the prompt library, \<^verbatim>\<open>url.Parse\<close>):
  it has an identity and the text its \<^verbatim>\<open>Error()\<close> method returns.
\<close>

datatype ext_error = ExtError nat string

fun Error_text :: "ext_error \<Rightarrow> string" where
  "Error_text (ExtError _ s) = s"

datatype error =
    ErrorString string
  | OsEnvironmentError string
  | MultiError "error list"
  | External ext_error

text \<open>\<^verbatim>\<open>spaces.Space\<close>: only the two fields the factory reads.\<close>

record space =
  ID :: string
  Name :: string

text \<open>Pointers to objects of other packages are opaque handles.\<close>

datatype octoClient = ClientPtr nat

datatype http_client = HttpPtr nat

datatype url = URL string

text \<open>\<^verbatim>\<open>question.Asker\<close> is a function value; \<^verbatim>\<open>survey.AskOne\<close> is one of them.\<close>

datatype asker = survey_AskOne | OtherAsker nat

text \<open>The struct \<^verbatim>\<open>Client\<close> (lines 42-69); a nil pointer or nil function is \<open>None\<close>.\<close>

record Client =
  HttpClient :: "http_client option"
  SystemClient :: "octoClient option"
  SpaceScopedClient :: "octoClient option"
  ApiUrl :: url
  ApiKey :: string
  SpaceNameOrID :: string
  ActiveSpace :: "space option"
  Ask :: "asker option"

section \<open>The world outside the package\<close>

text \<open>
  Every call that leaves the package is recorded, in order, with its arguments. The log is
  the state of the outside world: what a call answers may depend on everything asked before,
  so two listings of the spaces need not agree.
\<close>

datatype call =
    CallNewClient "http_client option" url string string
  | CallGetAll octoClient
  | CallSelectMap asker string "space list"

text \<open>
  The functions of other packages are parameters of the model:
  \<^item> \<open>url_Parse\<close> is \<^verbatim>\<open>url.Parse\<close>, \<open>EqualFold\<close> is \<^verbatim>\<open>strings.EqualFold\<close> (standard library);
  \<^item> \<open>NewClient\<close> is \<^verbatim>\<open>octopusApiClient.NewClient(httpClient, apiUrl, apiKey, spaceID)\<close> and
    \<open>Spaces_GetAll\<close> is \<^verbatim>\<open>client.Spaces.GetAll()\<close> (the SDK; both go to the server);
  \<^item> \<open>SelectMap\<close> is \<^verbatim>\<open>question.SelectMap(ask, message, items, getKey)\<close>, the single-select
    prompt; the key function passed at line 177 is always \<^verbatim>\<open>item.GetName()\<close> and is left out.
  A call that returns without error returns a non-nil result.
\<close>

record externals =
  url_Parse :: "string \<Rightarrow> ext_error + url"
  EqualFold :: "string \<Rightarrow> string \<Rightarrow> bool"
  NewClient :: "call list \<Rightarrow> http_client option \<Rightarrow> url \<Rightarrow> string \<Rightarrow> string \<Rightarrow> ext_error + octoClient"
  Spaces_GetAll :: "call list \<Rightarrow> octoClient \<Rightarrow> ext_error + space list"
  SelectMap :: "call list \<Rightarrow> asker \<Rightarrow> string \<Rightarrow> space list \<Rightarrow> ext_error + space"

text \<open>The process environment: \<^verbatim>\<open>os.Getenv\<close> gives the empty string for an unset variable,
  \<^verbatim>\<open>os.LookupEnv\<close> also says whether the variable is set.\<close>

type_synonym environ = "string \<rightharpoonup> string"

definition Getenv :: "environ \<Rightarrow> string \<Rightarrow> string" where
  "Getenv env k = (case env k of None \<Rightarrow> [] | Some v \<Rightarrow> v)"

definition LookupEnv :: "environ \<Rightarrow> string \<Rightarrow> string \<times> bool" where
  "LookupEnv env k = (case env k of None \<Rightarrow> ([], False) | Some v \<Rightarrow> (v, True))"

text \<open>\<^verbatim>\<open>multierror.Append\<close> on a possibly nil \<^verbatim>\<open>*multierror.Error\<close>, and \<^verbatim>\<open>ErrorOrNil\<close>.\<close>

definition multierror_Append :: "error list option \<Rightarrow> error \<Rightarrow> error list option" where
  "multierror_Append result err =
     (case result of None \<Rightarrow> Some [err] | Some errs \<Rightarrow> Some (errs @ [err]))"

definition ErrorOrNil :: "error list option \<Rightarrow> error option" where
  "ErrorOrNil result =
     (case result of None \<Rightarrow> None
      | Some errs \<Rightarrow> (if errs = [] then None else Some (MultiError errs)))"

section \<open>Construction\<close>

text \<open>\<^verbatim>\<open>NewClientFactory\<close>, lines 71-88.\<close>

definition NewClientFactory ::
  "externals \<Rightarrow> http_client option \<Rightarrow> string \<Rightarrow> string \<Rightarrow> string \<Rightarrow> asker option
     \<Rightarrow> error + Client" where
  "NewClientFactory ext httpClient host apiKey spaceNameOrID asker =
     (case url_Parse ext host of
        Inl err \<Rightarrow> Inl (External err)
      | Inr hostUrl \<Rightarrow>
          Inr \<lparr> HttpClient = httpClient,
                SystemClient = None,
                SpaceScopedClient = None,
                ApiUrl = hostUrl,
                ApiKey = apiKey,
                SpaceNameOrID = spaceNameOrID,
                ActiveSpace = None,
                Ask = asker \<rparr>)"

text \<open>\<^verbatim>\<open>ValidateMandatoryEnvironment\<close>, lines 113-124.\<close>

definition ValidateMandatoryEnvironment :: "string \<Rightarrow> string \<Rightarrow> error option" where
  "ValidateMandatoryEnvironment host apiKey =
     (let result = None;
          result = (if host = [] then multierror_Append result (OsEnvironmentError ''OCTOPUS_HOST'')
                    else result);
          result = (if apiKey = [] then multierror_Append result (OsEnvironmentError ''OCTOPUS_API_KEY'')
                    else result)
      in ErrorOrNil result)"

text \<open>\<^verbatim>\<open>NewClientFactoryFromEnvironment\<close>, lines 92-111.\<close>

definition NewClientFactoryFromEnvironment :: "externals \<Rightarrow> environ \<Rightarrow> error + Client" where
  "NewClientFactoryFromEnvironment ext env =
     (let host = Getenv env ''OCTOPUS_HOST'';
          apiKey = Getenv env ''OCTOPUS_API_KEY'';
          spaceNameOrID = Getenv env ''OCTOPUS_SPACE'';
          ci = snd (LookupEnv env ''CI'');
          ask = (if \<not> ci then Some survey_AskOne else None)
      in case ValidateMandatoryEnvironment host apiKey of
           Some errs \<Rightarrow> Inl errs
         | None \<Rightarrow> NewClientFactory ext None host apiKey spaceNameOrID ask)"

section \<open>The four operations\<close>

text \<open>\<^verbatim>\<open>GetActiveSpace\<close>, lines 126-128.\<close>

definition GetActiveSpace :: "Client \<Rightarrow> space option" where
  "GetActiveSpace c = ActiveSpace c"

text \<open>\<^verbatim>\<open>SetSpaceNameOrId\<close>, lines 130-139.\<close>

definition SetSpaceNameOrId :: "string \<Rightarrow> Client \<Rightarrow> Client" where
  "SetSpaceNameOrId spaceNameOrId c =
     c\<lparr> SystemClient := None,
        SpaceScopedClient := None,
        ActiveSpace := None,
        SpaceNameOrID := spaceNameOrId \<rparr>"

text \<open>
  \<^verbatim>\<open>GetSystemClient\<close>, lines 231-255. A stateful operation takes the factory and the log and
  returns its result, the factory and the log as it leaves them.
\<close>

definition GetSystemClient ::
  "externals \<Rightarrow> Client \<Rightarrow> call list \<Rightarrow> (error + octoClient) \<times> Client \<times> call list" where
  "GetSystemClient ext c log =
     (case SpaceScopedClient c of
        Some scoped \<Rightarrow> (Inr scoped, c, log)
      | None \<Rightarrow>
         (case SystemClient c of
            Some sys \<Rightarrow> (Inr sys, c, log)
          | None \<Rightarrow>
             (case NewClient ext log (HttpClient c) (ApiUrl c) (ApiKey c) [] of
                Inl err \<Rightarrow>
                  (Inl (External err), c,
                   log @ [CallNewClient (HttpClient c) (ApiUrl c) (ApiKey c) []])
              | Inr systemClient \<Rightarrow>
                  (Inr systemClient, c\<lparr> SystemClient := Some systemClient \<rparr>,
                   log @ [CallNewClient (HttpClient c) (ApiUrl c) (ApiKey c) []]))))"

text \<open>
  \<^verbatim>\<open>GetSpacedClient\<close>, lines 153-186: with no space specified, fail without an asker, else
  list the spaces and take the only one or ask. The result is \<^verbatim>\<open>foundSpaceID\<close>, which stays
  empty when a space was specified.
\<close>

definition GetSpacedClient_select ::
  "externals \<Rightarrow> octoClient \<Rightarrow> Client \<Rightarrow> call list \<Rightarrow> (error + string) \<times> Client \<times> call list" where
  "GetSpacedClient_select ext systemClient c log =
     (if SpaceNameOrID c = [] then
        (case Ask c of
           None \<Rightarrow>
             (Inl (ErrorString ''space must be specified when not running interactively; please set the OCTOPUS_SPACE environment variable or specify --space on the command line''),
              c, log)
         | Some ask \<Rightarrow>
            (case Spaces_GetAll ext log systemClient of
               Inl err \<Rightarrow> (Inl (External err), c, log @ [CallGetAll systemClient])
             | Inr allSpaces \<Rightarrow>
                (case allSpaces of
                   [] \<Rightarrow> (Inl (ErrorString ''no spaces found''), c, log @ [CallGetAll systemClient])
                 | [selectedSpace] \<Rightarrow>
                     (Inr (ID selectedSpace),
                      c\<lparr> ActiveSpace := Some selectedSpace, SpaceNameOrID := ID selectedSpace \<rparr>,
                      log @ [CallGetAll systemClient])
                 | _ \<Rightarrow>
                    (case SelectMap ext (log @ [CallGetAll systemClient]) ask
                            ''You have not specified a Space. Please select one:'' allSpaces of
                       Inl err \<Rightarrow>
                         (Inl (External err), c,
                          log @ [CallGetAll systemClient,
                                 CallSelectMap ask ''You have not specified a Space. Please select one:'' allSpaces])
                     | Inr selectedSpace \<Rightarrow>
                         (Inr (ID selectedSpace),
                          c\<lparr> ActiveSpace := Some selectedSpace, SpaceNameOrID := ID selectedSpace \<rparr>,
                          log @ [CallGetAll systemClient,
                                 CallSelectMap ask ''You have not specified a Space. Please select one:'' allSpaces])))))
      else (Inr [], c, log))"

text \<open>
  The loop of lines 197-207 over the listed spaces: the first space whose name matches ends
  the loop; until then every space whose ID matches replaces the fallback. The result is
  \<^verbatim>\<open>(foundSpace, foundSpaceByID)\<close>.
\<close>

fun GetSpacedClient_loop ::
  "(string \<Rightarrow> string \<Rightarrow> bool) \<Rightarrow> string \<Rightarrow> space list \<Rightarrow> space option
     \<Rightarrow> space option \<times> space option" where
  "GetSpacedClient_loop eqFold nameOrID [] foundSpaceByID = (None, foundSpaceByID)"
| "GetSpacedClient_loop eqFold nameOrID (space # rest) foundSpaceByID =
     (if eqFold (Name space) nameOrID then (Some space, foundSpaceByID)
      else if eqFold (ID space) nameOrID then GetSpacedClient_loop eqFold nameOrID rest (Some space)
      else GetSpacedClient_loop eqFold nameOrID rest foundSpaceByID)"

text \<open>Lines 197-210: the loop, then the fallback to the match on the ID.\<close>

definition GetSpacedClient_find :: "(string \<Rightarrow> string \<Rightarrow> bool) \<Rightarrow> string \<Rightarrow> space list \<Rightarrow> space option" where
  "GetSpacedClient_find eqFold nameOrID allSpaces =
     (case GetSpacedClient_loop eqFold nameOrID allSpaces None of
        (None, Some foundSpaceByID) \<Rightarrow> Some foundSpaceByID
      | (foundSpace, _) \<Rightarrow> foundSpace)"

text \<open>Lines 188-219, entered when \<^verbatim>\<open>foundSpaceID\<close> is still empty.\<close>

definition GetSpacedClient_lookup ::
  "externals \<Rightarrow> octoClient \<Rightarrow> Client \<Rightarrow> call list \<Rightarrow> (error + string) \<times> Client \<times> call list" where
  "GetSpacedClient_lookup ext systemClient c log =
     (case Spaces_GetAll ext log systemClient of
        Inl err \<Rightarrow>
          (Inl (ErrorString (''cannot load spaces. Error: '' @ Error_text err)), c,
           log @ [CallGetAll systemClient])
      | Inr allSpaces \<Rightarrow>
         (case GetSpacedClient_find (EqualFold ext) (SpaceNameOrID c) allSpaces of
            None \<Rightarrow>
              (Inl (ErrorString (''cannot find space '' @ [CHR 0x27] @ SpaceNameOrID c @ [CHR 0x27])), c,
               log @ [CallGetAll systemClient])
          | Some foundSpace \<Rightarrow>
              (Inr (ID foundSpace),
               c\<lparr> ActiveSpace := Some foundSpace, SpaceNameOrID := ID foundSpace \<rparr>,
               log @ [CallGetAll systemClient])))"

text \<open>Lines 153-219 together: the identifier of the space to bind the handle to.\<close>

definition GetSpacedClient_resolve ::
  "externals \<Rightarrow> octoClient \<Rightarrow> Client \<Rightarrow> call list \<Rightarrow> (error + string) \<times> Client \<times> call list" where
  "GetSpacedClient_resolve ext systemClient c log =
     (case GetSpacedClient_select ext systemClient c log of
        (Inl err, c', log') \<Rightarrow> (Inl err, c', log')
      | (Inr foundSpaceID, c', log') \<Rightarrow>
          (if foundSpaceID = [] then GetSpacedClient_lookup ext systemClient c' log'
           else (Inr foundSpaceID, c', log')))"

text \<open>\<^verbatim>\<open>GetSpacedClient\<close>, lines 141-229.\<close>

definition GetSpacedClient ::
  "externals \<Rightarrow> Client \<Rightarrow> call list \<Rightarrow> (error + octoClient) \<times> Client \<times> call list" where
  "GetSpacedClient ext c log =
     (case SpaceScopedClient c of
        Some scoped \<Rightarrow> (Inr scoped, c, log)
      | None \<Rightarrow>
         (case GetSystemClient ext c log of
            (Inl err, c1, log1) \<Rightarrow> (Inl err, c1, log1)
          | (Inr systemClient, c1, log1) \<Rightarrow>
             (case GetSpacedClient_resolve ext systemClient c1 log1 of
                (Inl err, c2, log2) \<Rightarrow> (Inl err, c2, log2)
              | (Inr foundSpaceID, c2, log2) \<Rightarrow>
                 (case NewClient ext log2 (HttpClient c2) (ApiUrl c2) (ApiKey c2) foundSpaceID of
                    Inl err \<Rightarrow>
                      (Inl (External err), c2,
                       log2 @ [CallNewClient (HttpClient c2) (ApiUrl c2) (ApiKey c2) foundSpaceID])
                  | Inr scopedClient \<Rightarrow>
                      (Inr scopedClient,
                       c2\<lparr> SpaceScopedClient := Some scopedClient, SystemClient := None \<rparr>,
                       log2 @ [CallNewClient (HttpClient c2) (ApiUrl c2) (ApiKey c2) foundSpaceID])))))"

section \<open>Sequences of calls on one factory\<close>

datatype op = OpGetSystemClient | OpGetSpacedClient | OpGetActiveSpace | OpSetSpaceNameOrId string

fun step :: "externals \<Rightarrow> op \<Rightarrow> Client \<times> call list \<Rightarrow> Client \<times> call list" where
  "step ext OpGetSystemClient (c, log) = snd (GetSystemClient ext c log)"
| "step ext OpGetSpacedClient (c, log) = snd (GetSpacedClient ext c log)"
| "step ext OpGetActiveSpace (c, log) = (c, log)"
| "step ext (OpSetSpaceNameOrId spaceNameOrId) (c, log) = (SetSpaceNameOrId spaceNameOrId c, log)"

fun run :: "externals \<Rightarrow> op list \<Rightarrow> Client \<times> call list \<Rightarrow> Client \<times> call list" where
  "run ext [] s = s"
| "run ext (x # xs) s = run ext xs (step ext x s)"

section \<open>Vocabulary of the properties\<close>

text \<open>A listing of the spaces, and a prompt, among the calls of a log.\<close>

fun is_listing :: "call \<Rightarrow> bool" where
  "is_listing (CallGetAll _) = True"
| "is_listing _ = False"

fun is_prompt :: "call \<Rightarrow> bool" where
  "is_prompt (CallSelectMap _ _ _) = True"
| "is_prompt _ = False"

text \<open>
  The server gives every space it lists a non-empty ID. The factory takes it for granted:
  line 188 reads an empty \<^verbatim>\<open>foundSpaceID\<close> as "nothing selected yet".
\<close>

definition ids_nonempty :: "externals \<Rightarrow> bool" where
  "ids_nonempty ext \<longleftrightarrow>
     (\<forall>log client allSpaces. Spaces_GetAll ext log client = Inr allSpaces
         \<longrightarrow> (\<forall>s \<in> set allSpaces. ID s \<noteq> []))"

section \<open>Concrete factories and servers for the examples\<close>

text \<open>\<^verbatim>\<open>strings.EqualFold\<close> on ASCII text: equality after lowering the letters A-Z.\<close>

definition ascii_lower :: "char \<Rightarrow> char" where
  "ascii_lower ch =
     (case map_of (zip ''ABCDEFGHIJKLMNOPQRSTUVWXYZ'' ''abcdefghijklmnopqrstuvwxyz'') ch of
        Some l \<Rightarrow> l
      | None \<Rightarrow> ch)"

definition ascii_EqualFold :: "string \<Rightarrow> string \<Rightarrow> bool" where
  "ascii_EqualFold s t = (map ascii_lower s = map ascii_lower t)"

definition space_default :: space where
  "space_default = \<lparr> ID = ''Spaces-1'', Name = ''Default'' \<rparr>"

text \<open>A space whose name is the ID of \<open>space_default\<close>.\<close>

definition space_second :: space where
  "space_second = \<lparr> ID = ''Spaces-2'', Name = ''Spaces-1'' \<rparr>"

definition err_refused :: ext_error where
  "err_refused = ExtError 7 ''connection refused''"

definition err_interrupt :: ext_error where
  "err_interrupt = ExtError 8 ''interrupt''"

definition err_parse :: ext_error where
  "err_parse = ExtError 9 ''parse: first path segment in URL cannot contain colon''"

text \<open>
  A server that lists \<open>allSpaces\<close> and hands out a new handle for every request; the user
  at the prompt picks the last entry. \<^verbatim>\<open>url.Parse\<close> rejects a host without a scheme whose
  first path segment contains a colon, here \<^verbatim>\<open>127.0.0.1:8080\<close>.
\<close>

definition server :: "space list \<Rightarrow> externals" where
  "server allSpaces =
     \<lparr> url_Parse = (\<lambda>host. if host = ''127.0.0.1:8080'' then Inl err_parse else Inr (URL host)),
       EqualFold = ascii_EqualFold,
       NewClient = (\<lambda>log httpClient apiUrl apiKey spaceID. Inr (ClientPtr (length log))),
       Spaces_GetAll = (\<lambda>log client. Inr allSpaces),
       SelectMap = (\<lambda>log ask message items.
                      if items = [] then Inl err_interrupt else Inr (last items)) \<rparr>"

text \<open>The same server with a listing that fails.\<close>

definition server_listing_fails :: externals where
  "server_listing_fails = (server []) \<lparr> Spaces_GetAll := (\<lambda>log client. Inl err_refused) \<rparr>"

text \<open>The same server, refusing every handle that is bound to a space.\<close>

definition server_scoped_fails :: "space list \<Rightarrow> externals" where
  "server_scoped_fails allSpaces =
     (server allSpaces) \<lparr> NewClient := (\<lambda>log httpClient apiUrl apiKey spaceID.
         if spaceID = [] then Inr (ClientPtr (length log)) else Inl err_refused) \<rparr>"

text \<open>The same server, refusing every handle.\<close>

definition server_down :: externals where
  "server_down = (server []) \<lparr> NewClient := (\<lambda>log httpClient apiUrl apiKey spaceID. Inl err_refused) \<rparr>"

text \<open>A factory as \<open>NewClientFactory\<close> leaves it.\<close>

definition factory :: "string \<Rightarrow> asker option \<Rightarrow> Client" where
  "factory spaceNameOrID asker =
     \<lparr> HttpClient = None, SystemClient = None, SpaceScopedClient = None,
       ApiUrl = URL ''https://octopus.example'', ApiKey = ''API-KEY'',
       SpaceNameOrID = spaceNameOrID, ActiveSpace = None, Ask = asker \<rparr>"

text \<open>An environment with both mandatory variables set, the host without a scheme.\<close>

definition env_bad_host :: environ where
  "env_bad_host = [''OCTOPUS_HOST'' \<mapsto> ''127.0.0.1:8080'', ''OCTOPUS_API_KEY'' \<mapsto> ''API-KEY'']"

text \<open>Environments of a CI run and of a terminal session, neither naming a space.\<close>

definition env_ci :: environ where
  "env_ci = [''OCTOPUS_HOST'' \<mapsto> ''https://octopus.example'', ''OCTOPUS_API_KEY'' \<mapsto> ''API-KEY'',
             ''CI'' \<mapsto> []]"

definition env_terminal :: environ where
  "env_terminal = [''OCTOPUS_HOST'' \<mapsto> ''https://octopus.example'', ''OCTOPUS_API_KEY'' \<mapsto> ''API-KEY'']"

definition env_no_key :: environ where
  "env_no_key = [''OCTOPUS_HOST'' \<mapsto> ''https://octopus.example'']"

definition env_empty :: environ where
  "env_empty = Map.empty"

text \<open>A factory bound to \<open>space_second\<close>, as a successful \<open>GetSpacedClient\<close> leaves it.\<close>

definition factory_bound :: Client where
  "factory_bound =
     \<lparr> HttpClient = None, SystemClient = None, SpaceScopedClient = Some (ClientPtr 5),
       ApiUrl = URL ''https://octopus.example'', ApiKey = ''API-KEY'',
       SpaceNameOrID = ''Spaces-2'', ActiveSpace = Some space_second, Ask = None \<rparr>"

section \<open>Auxiliary facts\<close>

lemma find_append_case:
  "find P (xs @ ys) = (case find P xs of Some x \<Rightarrow> Some x | None \<Rightarrow> find P ys)"
  by (induction xs) auto

text \<open>The loop stops at the first match on the name.\<close>

lemma loop_foundSpace:
  "fst (GetSpacedClient_loop eqFold x xs b) = find (\<lambda>s. eqFold (Name s) x) xs"
  by (induction xs arbitrary: b) auto

text \<open>Without a match on the name, the fallback is the last space whose ID matches.\<close>

lemma loop_foundSpaceByID:
  "find (\<lambda>s. eqFold (Name s) x) xs = None \<Longrightarrow>
   snd (GetSpacedClient_loop eqFold x xs b) =
     (case find (\<lambda>s. eqFold (ID s) x) (rev xs) of Some s \<Rightarrow> Some s | None \<Rightarrow> b)"
  by (induction xs arbitrary: b) (auto simp: find_append_case split: option.splits if_splits)

lemma GetSpacedClient_find_eq:
  "GetSpacedClient_find eqFold x xs =
     (case find (\<lambda>s. eqFold (Name s) x) xs of
        Some s \<Rightarrow> Some s
      | None \<Rightarrow> find (\<lambda>s. eqFold (ID s) x) (rev xs))"
  using loop_foundSpace[of eqFold x xs None] loop_foundSpaceByID[of eqFold x xs None]
  by (auto simp: GetSpacedClient_find_def split: option.splits prod.splits)

text \<open>What \<open>GetSystemClient\<close> leaves behind when no space-scoped handle is cached.\<close>

lemma GetSystemClient_unscoped:
  assumes "SpaceScopedClient c = None" and "GetSystemClient ext c log = (Inr sc, c1, log1)"
  shows "c1 = c\<lparr> SystemClient := Some sc \<rparr>"
    and "log1 = log \<or> log1 = log @ [CallNewClient (HttpClient c) (ApiUrl c) (ApiKey c) []]"
  using assms by (auto simp: GetSystemClient_def split: option.splits sum.splits)

lemma select_specified:
  "SpaceNameOrID c \<noteq> [] \<Longrightarrow> GetSpacedClient_select ext sc c log = (Inr [], c, log)"
  by (simp add: GetSpacedClient_select_def)

text \<open>\<open>GetSpacedClient\<close> after the system handle and the resolution of the space.\<close>

lemma GetSpacedClient_unfold:
  assumes "SpaceScopedClient c = None" and "GetSystemClient ext c log = (Inr sc, c1, log1)"
    and "GetSpacedClient_resolve ext sc c1 log1 = (rr, c2, log2)"
  shows "GetSpacedClient ext c log =
     (case rr of
        Inl err \<Rightarrow> (Inl err, c2, log2)
      | Inr foundSpaceID \<Rightarrow>
         (case NewClient ext log2 (HttpClient c2) (ApiUrl c2) (ApiKey c2) foundSpaceID of
            Inl err \<Rightarrow>
              (Inl (External err), c2,
               log2 @ [CallNewClient (HttpClient c2) (ApiUrl c2) (ApiKey c2) foundSpaceID])
          | Inr scopedClient \<Rightarrow>
              (Inr scopedClient,
               c2\<lparr> SpaceScopedClient := Some scopedClient, SystemClient := None \<rparr>,
               log2 @ [CallNewClient (HttpClient c2) (ApiUrl c2) (ApiKey c2) foundSpaceID])))"
  using assms by (simp add: GetSpacedClient_def split: sum.splits)

text \<open>The first call on a new factory asks the example server for a system handle.\<close>

lemma fixture_system_client:
  "GetSystemClient (server xs) (factory x a) [] =
     (Inr (ClientPtr 0), (factory x a)\<lparr> SystemClient := Some (ClientPtr 0) \<rparr>,
      [CallNewClient None (URL ''https://octopus.example'') ''API-KEY'' []])"
  by (simp add: GetSystemClient_def server_def factory_def)

text \<open>The lookup of lines 188-219 makes one call, the listing.\<close>

lemma lookup_log:
  "GetSpacedClient_lookup ext sc c log = (rr, c', log') \<Longrightarrow> log' = log @ [CallGetAll sc]"
  by (auto simp: GetSpacedClient_lookup_def split: sum.splits option.splits)

text \<open>The lookup on a listing: the first match on the name, else the last match on the ID.\<close>

lemma lookup_found:
  assumes "Spaces_GetAll ext log sc = Inr allSpaces"
  shows "GetSpacedClient_lookup ext sc c log =
     (case (case find (\<lambda>s. EqualFold ext (Name s) (SpaceNameOrID c)) allSpaces of
              Some s \<Rightarrow> Some s
            | None \<Rightarrow> find (\<lambda>s. EqualFold ext (ID s) (SpaceNameOrID c)) (rev allSpaces)) of
        None \<Rightarrow>
          (Inl (ErrorString (''cannot find space '' @ [CHR 0x27] @ SpaceNameOrID c @ [CHR 0x27])), c,
           log @ [CallGetAll sc])
      | Some foundSpace \<Rightarrow>
          (Inr (ID foundSpace),
           c\<lparr> ActiveSpace := Some foundSpace, SpaceNameOrID := ID foundSpace \<rparr>,
           log @ [CallGetAll sc]))"
  using assms by (simp add: GetSpacedClient_lookup_def GetSpacedClient_find_eq)

text \<open>Resolving the space leaves the handles, the credentials and the asker alone.\<close>

lemma select_fields:
  assumes "GetSpacedClient_select ext sc c log = (rr, c', log')"
  shows "HttpClient c' = HttpClient c" "ApiUrl c' = ApiUrl c" "ApiKey c' = ApiKey c"
    "SystemClient c' = SystemClient c" "SpaceScopedClient c' = SpaceScopedClient c" "Ask c' = Ask c"
  using assms
  by (auto simp: GetSpacedClient_select_def split: if_splits option.splits sum.splits list.splits)

lemma lookup_fields:
  assumes "GetSpacedClient_lookup ext sc c log = (rr, c', log')"
  shows "HttpClient c' = HttpClient c" "ApiUrl c' = ApiUrl c" "ApiKey c' = ApiKey c"
    "SystemClient c' = SystemClient c" "SpaceScopedClient c' = SpaceScopedClient c" "Ask c' = Ask c"
  using assms
  by (auto simp: GetSpacedClient_lookup_def split: option.splits sum.splits)

lemma resolve_fields:
  assumes "GetSpacedClient_resolve ext sc c log = (rr, c', log')"
  shows "HttpClient c' = HttpClient c" "ApiUrl c' = ApiUrl c" "ApiKey c' = ApiKey c"
    "SystemClient c' = SystemClient c" "SpaceScopedClient c' = SpaceScopedClient c" "Ask c' = Ask c"
proof -
  obtain rs cs ls where sel: "GetSpacedClient_select ext sc c log = (rs, cs, ls)"
    by (cases "GetSpacedClient_select ext sc c log") auto
  note sf = select_fields[OF sel]
  have "HttpClient c' = HttpClient c \<and> ApiUrl c' = ApiUrl c \<and> ApiKey c' = ApiKey c \<and>
    SystemClient c' = SystemClient c \<and> SpaceScopedClient c' = SpaceScopedClient c \<and> Ask c' = Ask c"
  proof (cases "rs = Inr []")
    case True
    with sel assms have "GetSpacedClient_lookup ext sc cs ls = (rr, c', log')"
      by (simp add: GetSpacedClient_resolve_def)
    from lookup_fields[OF this] sf show ?thesis by simp
  next
    case False
    with sel assms have "c' = cs"
      by (cases rs) (auto simp: GetSpacedClient_resolve_def split: if_splits)
    with sf show ?thesis by simp
  qed
  then show "HttpClient c' = HttpClient c" "ApiUrl c' = ApiUrl c" "ApiKey c' = ApiKey c"
    "SystemClient c' = SystemClient c" "SpaceScopedClient c' = SpaceScopedClient c" "Ask c' = Ask c"
    by simp_all
qed

lemma fixture_system_client_listing_fails:
  "GetSystemClient server_listing_fails (factory x a) [] =
     (Inr (ClientPtr 0), (factory x a)\<lparr> SystemClient := Some (ClientPtr 0) \<rparr>,
      [CallNewClient None (URL ''https://octopus.example'') ''API-KEY'' []])"
  by (simp add: GetSystemClient_def server_listing_fails_def server_def factory_def)

lemma fixture_system_client_scoped_fails:
  "GetSystemClient (server_scoped_fails xs) (factory x a) [] =
     (Inr (ClientPtr 0), (factory x a)\<lparr> SystemClient := Some (ClientPtr 0) \<rparr>,
      [CallNewClient None (URL ''https://octopus.example'') ''API-KEY'' []])"
  by (simp add: GetSystemClient_def server_scoped_fails_def server_def factory_def)

text \<open>What one call does to the two handles.\<close>

lemma GetSystemClient_fields:
  assumes "GetSystemClient ext c log = (r, c', log')"
  shows "SpaceScopedClient c' = SpaceScopedClient c" "SpaceNameOrID c' = SpaceNameOrID c"
    "ActiveSpace c' = ActiveSpace c" "Ask c' = Ask c"
    "SpaceScopedClient c \<noteq> None \<longrightarrow> SystemClient c' = SystemClient c"
  using assms by (auto simp: GetSystemClient_def split: option.splits sum.splits)

lemma GetSpacedClient_cases:
  assumes "GetSpacedClient ext c log = (r, c', log')"
  shows "(SpaceScopedClient c \<noteq> None \<and> c' = c \<and> log' = log \<and> r = Inr (the (SpaceScopedClient c)))
       \<or> (SpaceScopedClient c = None \<and> SpaceScopedClient c' = None \<and> Ask c' = Ask c \<and> (\<exists>e. r = Inl e))
       \<or> (SpaceScopedClient c = None \<and> SystemClient c' = None \<and> Ask c' = Ask c
            \<and> (\<exists>h. r = Inr h \<and> SpaceScopedClient c' = Some h))"
proof (cases "SpaceScopedClient c")
  case (Some h)
  with assms show ?thesis by (auto simp: GetSpacedClient_def)
next
  case None
  obtain rs c1 log1 where g: "GetSystemClient ext c log = (rs, c1, log1)"
    by (cases "GetSystemClient ext c log") auto
  note gf = GetSystemClient_fields[OF g]
  show ?thesis
  proof (cases rs)
    case (Inl e)
    with assms None g gf show ?thesis by (auto simp: GetSpacedClient_def)
  next
    case (Inr sc)
    obtain rr c2 log2 where res: "GetSpacedClient_resolve ext sc c1 log1 = (rr, c2, log2)"
      by (cases "GetSpacedClient_resolve ext sc c1 log1") auto
    note rf = resolve_fields[OF res]
    from GetSpacedClient_unfold[OF None g[unfolded Inr] res] assms None gf rf
    show ?thesis by (auto split: sum.splits)
  qed
qed

lemma step_handles:
  assumes "SpaceScopedClient c \<noteq> None \<longrightarrow> SystemClient c = None"
    and "step ext x (c, log) = (c', log')"
  shows "SpaceScopedClient c' \<noteq> None \<longrightarrow> SystemClient c' = None"
proof (cases x)
  case OpGetSystemClient
  obtain r where "GetSystemClient ext c log = (r, c', log')"
    using assms(2) OpGetSystemClient by (cases "GetSystemClient ext c log") auto
  from GetSystemClient_fields[OF this] assms(1) show ?thesis by auto
next
  case OpGetSpacedClient
  obtain r where "GetSpacedClient ext c log = (r, c', log')"
    using assms(2) OpGetSpacedClient by (cases "GetSpacedClient ext c log") auto
  from GetSpacedClient_cases[OF this] assms(1) show ?thesis by auto
next
  case OpGetActiveSpace
  with assms show ?thesis by simp
next
  case (OpSetSpaceNameOrId x)
  with assms show ?thesis by (auto simp: SetSpaceNameOrId_def)
qed

lemma run_handles:
  assumes "SpaceScopedClient c \<noteq> None \<longrightarrow> SystemClient c = None"
    and "run ext ops (c, log) = (c', log')"
  shows "SpaceScopedClient c' \<noteq> None \<longrightarrow> SystemClient c' = None"
  using assms
proof (induction ops arbitrary: c log)
  case Nil
  then show ?case by simp
next
  case (Cons x xs)
  obtain c1 log1 where s: "step ext x (c, log) = (c1, log1)"
    by (cases "step ext x (c, log)") auto
  from step_handles[OF Cons.prems(1) s] have "SpaceScopedClient c1 \<noteq> None \<longrightarrow> SystemClient c1 = None" .
  moreover from Cons.prems(2) s have "run ext xs (c1, log1) = (c', log')" by simp
  ultimately show ?case by (rule Cons.IH)
qed

text \<open>An identifier that resolution leaves behind is the ID of a listed space.\<close>

lemma find_mem: "find P xs = Some x \<Longrightarrow> x \<in> set xs"
  by (auto simp: find_Some_iff)

lemma GetSpacedClient_find_mem:
  "GetSpacedClient_find eqFold x xs = Some s \<Longrightarrow> s \<in> set xs"
  by (auto simp: GetSpacedClient_find_eq split: option.splits dest: find_mem)

lemma resolve_id:
  assumes "ids_nonempty ext"
    and "GetSpacedClient_resolve ext sc c log = (Inr sid, c', log')"
  shows "sid \<noteq> [] \<and> SpaceNameOrID c' = sid"
proof -
  have listed: "ID s \<noteq> []" if "Spaces_GetAll ext l cl = Inr xs" "s \<in> set xs" for l cl xs s
    using assms(1) that by (auto simp: ids_nonempty_def)
  obtain rs cs ls where sel: "GetSpacedClient_select ext sc c log = (rs, cs, ls)"
    by (cases "GetSpacedClient_select ext sc c log") auto
  have s1: "rs = Inr x \<Longrightarrow> x \<noteq> [] \<Longrightarrow> SpaceNameOrID cs = x" for x
    using sel
    by (auto simp: GetSpacedClient_select_def split: if_splits option.splits sum.splits list.splits)
  show ?thesis
  proof (cases "rs = Inr []")
    case True
    with sel assms(2) have look: "GetSpacedClient_lookup ext sc cs ls = (Inr sid, c', log')"
      by (simp add: GetSpacedClient_resolve_def)
    then obtain xs s where "Spaces_GetAll ext ls sc = Inr xs"
      "GetSpacedClient_find (EqualFold ext) (SpaceNameOrID cs) xs = Some s" "sid = ID s"
      "SpaceNameOrID c' = ID s"
      by (auto simp: GetSpacedClient_lookup_def split: sum.splits option.splits)
    with listed GetSpacedClient_find_mem show ?thesis by metis
  next
    case False
    with sel assms(2) have "rs = Inr sid" "sid \<noteq> []" "c' = cs"
      by (cases rs; auto simp: GetSpacedClient_resolve_def split: if_splits)+
    with s1 show ?thesis by simp
  qed
qed

lemma GetSpacedClient_identifier:
  assumes "ids_nonempty ext"
    and "SpaceScopedClient c \<noteq> None \<longrightarrow> SpaceNameOrID c \<noteq> []"
    and "GetSpacedClient ext c log = (r, c', log')"
  shows "SpaceScopedClient c' \<noteq> None \<longrightarrow> SpaceNameOrID c' \<noteq> []"
proof (cases "SpaceScopedClient c")
  case (Some h)
  with assms show ?thesis by (auto simp: GetSpacedClient_def)
next
  case None
  obtain rs c1 log1 where g: "GetSystemClient ext c log = (rs, c1, log1)"
    by (cases "GetSystemClient ext c log") auto
  note gf = GetSystemClient_fields[OF g]
  show ?thesis
  proof (cases rs)
    case (Inl e)
    with assms(3) None g gf show ?thesis by (auto simp: GetSpacedClient_def)
  next
    case (Inr sc)
    obtain rr c2 log2 where res: "GetSpacedClient_resolve ext sc c1 log1 = (rr, c2, log2)"
      by (cases "GetSpacedClient_resolve ext sc c1 log1") auto
    note rf = resolve_fields[OF res]
    show ?thesis
    proof (cases rr)
      case (Inl e)
      with GetSpacedClient_unfold[OF None g[unfolded Inr] res] assms(3) None gf rf
      show ?thesis by auto
    next
      case (Inr sid)
      from resolve_id[OF assms(1) res[unfolded Inr]] have "SpaceNameOrID c2 \<noteq> []" by simp
      with GetSpacedClient_unfold[OF None g[unfolded \<open>rs = Inr sc\<close>] res] assms(3) Inr
      show ?thesis by (auto split: sum.splits)
    qed
  qed
qed

lemma step_identifier:
  assumes "ids_nonempty ext"
    and "SpaceScopedClient c \<noteq> None \<longrightarrow> SpaceNameOrID c \<noteq> []"
    and "step ext x (c, log) = (c', log')"
  shows "SpaceScopedClient c' \<noteq> None \<longrightarrow> SpaceNameOrID c' \<noteq> []"
proof (cases x)
  case OpGetSystemClient
  obtain r where "GetSystemClient ext c log = (r, c', log')"
    using assms(3) OpGetSystemClient by (cases "GetSystemClient ext c log") auto
  from GetSystemClient_fields[OF this] assms(2) show ?thesis by auto
next
  case OpGetSpacedClient
  obtain r where "GetSpacedClient ext c log = (r, c', log')"
    using assms(3) OpGetSpacedClient by (cases "GetSpacedClient ext c log") auto
  from GetSpacedClient_identifier[OF assms(1,2) this] show ?thesis .
next
  case OpGetActiveSpace
  with assms show ?thesis by simp
next
  case (OpSetSpaceNameOrId x)
  with assms show ?thesis by (auto simp: SetSpaceNameOrId_def)
qed

lemma run_identifier:
  assumes "ids_nonempty ext"
    and "SpaceScopedClient c \<noteq> None \<longrightarrow> SpaceNameOrID c \<noteq> []"
    and "run ext ops (c, log) = (c', log')"
  shows "SpaceScopedClient c' \<noteq> None \<longrightarrow> SpaceNameOrID c' \<noteq> []"
  using assms(2,3)
proof (induction ops arbitrary: c log)
  case Nil
  then show ?case by simp
next
  case (Cons x xs)
  obtain c1 log1 where s: "step ext x (c, log) = (c1, log1)"
    by (cases "step ext x (c, log)") auto
  from step_identifier[OF assms(1) Cons.prems(1) s]
  have "SpaceScopedClient c1 \<noteq> None \<longrightarrow> SpaceNameOrID c1 \<noteq> []" .
  moreover from Cons.prems(2) s have "run ext xs (c1, log1) = (c', log')" by simp
  ultimately show ?case by (rule Cons.IH)
qed

text \<open>No identifier, no asker, no handle cached: the guard of lines 156-159.\<close>

lemma GetSpacedClient_no_identifier_no_asker:
  assumes "SpaceScopedClient c = None" and "SpaceNameOrID c = []" and "Ask c = None"
    and "GetSpacedClient ext c log = (r, c', log')"
  shows "(r = Inl (ErrorString ''space must be specified when not running interactively; please set the OCTOPUS_SPACE environment variable or specify --space on the command line'')
          \<or> (\<exists>e. r = Inl (External e) \<and> SystemClient c = None
                 \<and> NewClient ext log (HttpClient c) (ApiUrl c) (ApiKey c) [] = Inl e))
       \<and> ActiveSpace c' = ActiveSpace c \<and> SpaceNameOrID c' = [] \<and> SpaceScopedClient c' = None
       \<and> \<not> list_ex is_listing (drop (length log) log')
       \<and> \<not> list_ex is_prompt (drop (length log) log')"
  using assms
  by (auto simp: GetSpacedClient_def GetSystemClient_def GetSpacedClient_resolve_def
        GetSpacedClient_select_def split: option.splits sum.splits)

text \<open>A call that succeeds without a cached handle has listed the spaces.\<close>

lemma resolve_success:
  assumes "GetSpacedClient_resolve ext sc c log = (Inr sid, c', log')"
  shows "ActiveSpace c' \<noteq> None \<and> (\<exists>calls. log' = log @ calls \<and> list_ex is_listing calls)"
proof -
  obtain rs cs ls where sel: "GetSpacedClient_select ext sc c log = (rs, cs, ls)"
    by (cases "GetSpacedClient_select ext sc c log") auto
  have s1: "\<exists>calls. ls = log @ calls"
    using sel
    by (auto simp: GetSpacedClient_select_def split: if_splits option.splits sum.splits list.splits)
  have s2: "ActiveSpace cs \<noteq> None \<and> (\<exists>calls. ls = log @ calls \<and> list_ex is_listing calls)"
    if "rs = Inr x" "x \<noteq> []" for x
    using sel that
    by (auto simp: GetSpacedClient_select_def split: if_splits option.splits sum.splits list.splits)
  show ?thesis
  proof (cases "rs = Inr []")
    case True
    with sel assms have look: "GetSpacedClient_lookup ext sc cs ls = (Inr sid, c', log')"
      by (simp add: GetSpacedClient_resolve_def)
    then have "ActiveSpace c' \<noteq> None"
      by (auto simp: GetSpacedClient_lookup_def split: sum.splits option.splits)
    moreover from lookup_log[OF look] s1 obtain calls where "log' = log @ (calls @ [CallGetAll sc])"
      by auto
    then have "\<exists>calls. log' = log @ calls \<and> list_ex is_listing calls"
      by (intro exI[of _ "calls @ [CallGetAll sc]"]) simp
    ultimately show ?thesis by simp
  next
    case False
    with sel assms have "rs = Inr sid" "sid \<noteq> []" "c' = cs" "log' = ls"
      by (cases rs; auto simp: GetSpacedClient_resolve_def split: if_splits)+
    with s2 show ?thesis by simp
  qed
qed

lemma GetSpacedClient_success_looks_up:
  assumes "SpaceScopedClient c = None" and "GetSpacedClient ext c log = (Inr h, c', log')"
  shows "list_ex is_listing (drop (length log) log') \<and> ActiveSpace c' \<noteq> None"
proof -
  obtain rs c1 log1 where g: "GetSystemClient ext c log = (rs, c1, log1)"
    by (cases "GetSystemClient ext c log") auto
  with assms obtain sc where rs: "rs = Inr sc"
    by (cases rs) (auto simp: GetSpacedClient_def)
  have l1: "log1 = log \<or> log1 = log @ [CallNewClient (HttpClient c) (ApiUrl c) (ApiKey c) []]"
    using assms(1) g[unfolded rs] by (rule GetSystemClient_unscoped)
  obtain rr c2 log2 where res: "GetSpacedClient_resolve ext sc c1 log1 = (rr, c2, log2)"
    by (cases "GetSpacedClient_resolve ext sc c1 log1") auto
  note unf = GetSpacedClient_unfold[OF assms(1) g[unfolded rs] res]
  with assms(2) obtain sid where rr: "rr = Inr sid"
    by (cases rr) auto
  from resolve_success[OF res[unfolded rr]] obtain calls where
    c2: "ActiveSpace c2 \<noteq> None" and calls: "log2 = log1 @ calls" "list_ex is_listing calls"
    by auto
  from unf assms(2) rr have "ActiveSpace c' = ActiveSpace c2"
    and "\<exists>more. log' = log2 @ more"
    by (auto split: sum.splits)
  with c2 calls l1 show ?thesis by auto
qed

lemma run_before_GetSpacedClient:
  assumes "set ops \<subseteq> {OpGetSystemClient, OpGetActiveSpace}"
    and "run ext ops (c, log) = (c', log')"
  shows "ActiveSpace c' = ActiveSpace c \<and> SpaceScopedClient c' = SpaceScopedClient c
       \<and> SpaceNameOrID c' = SpaceNameOrID c"
  using assms
proof (induction ops arbitrary: c log)
  case Nil
  then show ?case by simp
next
  case (Cons x xs)
  obtain c1 log1 where s: "step ext x (c, log) = (c1, log1)"
    by (cases "step ext x (c, log)") auto
  have "ActiveSpace c1 = ActiveSpace c \<and> SpaceScopedClient c1 = SpaceScopedClient c
       \<and> SpaceNameOrID c1 = SpaceNameOrID c"
  proof (cases "x = OpGetActiveSpace")
    case True
    with s show ?thesis by simp
  next
    case False
    with Cons.prems(1) have "x = OpGetSystemClient" by auto
    with s obtain r where "GetSystemClient ext c log = (r, c1, log1)"
      by (cases "GetSystemClient ext c log") auto
    from GetSystemClient_fields[OF this] show ?thesis by simp
  qed
  moreover have "ActiveSpace c' = ActiveSpace c1 \<and> SpaceScopedClient c' = SpaceScopedClient c1
       \<and> SpaceNameOrID c' = SpaceNameOrID c1"
    using Cons.prems s by (intro Cons.IH) auto
  ultimately show ?case by simp
qed

section \<open>The system handle once a space-scoped handle exists\<close>

text \<open>
  Claim C6. In every factory state in which a space-scoped handle is cached,
  \<open>GetSystemClient\<close> returns that handle; the factory is unchanged, so no system handle is
  stored, and the log is unchanged, so no handle is constructed.
\<close>

theorem GetSystemClient_returns_scoped_handle:
  "SpaceScopedClient c = Some scoped \<Longrightarrow> GetSystemClient ext c log = (Inr scoped, c, log)"
  by (simp add: GetSystemClient_def)

theorem GetSystemClient_returns_scoped_handle_witness:
  "GetSystemClient (server [space_default])
     ((factory ''Default'' None)\<lparr> SpaceScopedClient := Some (ClientPtr 2) \<rparr>) []
   = (Inr (ClientPtr 2), (factory ''Default'' None)\<lparr> SpaceScopedClient := Some (ClientPtr 2) \<rparr>, [])"
proof -
  have h: "SpaceScopedClient ((factory ''Default'' None)\<lparr> SpaceScopedClient := Some (ClientPtr 2) \<rparr>)
             = Some (ClientPtr 2)"
    by simp
  show ?thesis by (rule GetSystemClient_returns_scoped_handle [OF h])
qed

section \<open>An identifier that matches no space\<close>

text \<open>
  Claim C8. When a non-empty identifier was requested, no handle is cached, the system handle
  is available and the listing holds no space whose name or ID matches the identifier under
  \<^verbatim>\<open>strings.EqualFold\<close>, \<open>GetSpacedClient\<close> fails with the error
  \<^verbatim>\<open>cannot find space '<identifier>'\<close>, right after the listing.
\<close>

theorem GetSpacedClient_unknown_identifier:
  assumes "SpaceScopedClient c = None"
    and "GetSystemClient ext c log = (Inr systemClient, c1, log1)"
    and "SpaceNameOrID c \<noteq> []"
    and "Spaces_GetAll ext log1 systemClient = Inr allSpaces"
    and "\<forall>s \<in> set allSpaces. \<not> EqualFold ext (Name s) (SpaceNameOrID c)
                              \<and> \<not> EqualFold ext (ID s) (SpaceNameOrID c)"
  shows "GetSpacedClient ext c log =
           (Inl (ErrorString (''cannot find space '' @ [CHR 0x27] @ SpaceNameOrID c @ [CHR 0x27])),
            c1, log1 @ [CallGetAll systemClient])"
proof -
  have c1: "c1 = c\<lparr> SystemClient := Some systemClient \<rparr>"
    using assms(1,2) by (rule GetSystemClient_unscoped)
  have n: "find (\<lambda>s. EqualFold ext (Name s) (SpaceNameOrID c)) allSpaces = None"
    using assms(5) by (simp add: find_None_iff)
  have i: "find (\<lambda>s. EqualFold ext (ID s) (SpaceNameOrID c)) (rev allSpaces) = None"
    using assms(5) by (simp add: find_None_iff)
  have "GetSpacedClient_find (EqualFold ext) (SpaceNameOrID c) allSpaces = None"
    by (simp add: GetSpacedClient_find_eq n i)
  then have "GetSpacedClient_resolve ext systemClient c1 log1 =
      (Inl (ErrorString (''cannot find space '' @ [CHR 0x27] @ SpaceNameOrID c @ [CHR 0x27])),
            c1, log1 @ [CallGetAll systemClient])"
    using assms(3,4)
    by (simp add: GetSpacedClient_resolve_def select_specified GetSpacedClient_lookup_def c1)
  from GetSpacedClient_unfold[OF assms(1,2) this] show ?thesis by simp
qed

theorem GetSpacedClient_unknown_identifier_witness:
  "GetSpacedClient (server [space_default, space_second]) (factory ''Production'' None) [] =
     (Inl (ErrorString (''cannot find space '' @ [CHR 0x27] @ ''Production'' @ [CHR 0x27])),
      (factory ''Production'' None)\<lparr> SystemClient := Some (ClientPtr 0) \<rparr>,
      [CallNewClient None (URL ''https://octopus.example'') ''API-KEY'' [], CallGetAll (ClientPtr 0)])"
proof -
  have h1: "SpaceScopedClient (factory ''Production'' None) = None"
    by (simp add: factory_def)
  have h3: "SpaceNameOrID (factory ''Production'' None) \<noteq> []"
    by (simp add: factory_def)
  have h4: "Spaces_GetAll (server [space_default, space_second])
              [CallNewClient None (URL ''https://octopus.example'') ''API-KEY'' []] (ClientPtr 0)
            = Inr [space_default, space_second]"
    by (simp add: server_def)
  have h5: "\<forall>s \<in> set [space_default, space_second].
              \<not> EqualFold (server [space_default, space_second]) (Name s)
                    (SpaceNameOrID (factory ''Production'' None))
            \<and> \<not> EqualFold (server [space_default, space_second]) (ID s)
                    (SpaceNameOrID (factory ''Production'' None))"
    by (simp add: server_def factory_def space_default_def space_second_def
                  ascii_EqualFold_def ascii_lower_def)
  from GetSpacedClient_unknown_identifier [OF h1 fixture_system_client h3 h4 h5] show ?thesis
    by (simp add: factory_def)
qed

section \<open>Name first, then ID\<close>

text \<open>
  Claim C1. When a non-empty identifier was requested, no handle is cached, the system handle
  is available and the server lists \<open>allSpaces\<close>, \<open>GetSpacedClient\<close> resolves the
  identifier to the first listed space whose name matches it under \<^verbatim>\<open>strings.EqualFold\<close>;
  only when no name matches, to a space whose ID matches (the last such in the listing);
  and it fails, naming the identifier, when neither matches. The resolved space becomes the
  active space, its ID the requested identifier, and the handle is requested for that ID.
  In particular, whenever some listed name matches, the active space is a space whose name
  matches, whatever IDs match as well.
\<close>

theorem GetSpacedClient_name_before_ID:
  assumes "SpaceScopedClient c = None"
    and "GetSystemClient ext c log = (Inr systemClient, c1, log1)"
    and "SpaceNameOrID c \<noteq> []"
    and "Spaces_GetAll ext log1 systemClient = Inr allSpaces"
    and "GetSpacedClient ext c log = (r, c', log')"
  shows "(case (case find (\<lambda>s. EqualFold ext (Name s) (SpaceNameOrID c)) allSpaces of
                  Some byName \<Rightarrow> Some byName
                | None \<Rightarrow> find (\<lambda>s. EqualFold ext (ID s) (SpaceNameOrID c)) (rev allSpaces)) of
            None \<Rightarrow>
              r = Inl (ErrorString (''cannot find space '' @ [CHR 0x27] @ SpaceNameOrID c @ [CHR 0x27]))
          | Some resolved \<Rightarrow>
              ActiveSpace c' = Some resolved \<and> SpaceNameOrID c' = ID resolved
            \<and> log' = log1 @ [CallGetAll systemClient,
                              CallNewClient (HttpClient c) (ApiUrl c) (ApiKey c) (ID resolved)]
            \<and> r = (case NewClient ext (log1 @ [CallGetAll systemClient])
                            (HttpClient c) (ApiUrl c) (ApiKey c) (ID resolved) of
                     Inl err \<Rightarrow> Inl (External err)
                   | Inr scopedClient \<Rightarrow> Inr scopedClient)
            \<and> SpaceScopedClient c' = (case r of Inl err \<Rightarrow> None | Inr scopedClient \<Rightarrow> Some scopedClient))
       \<and> ((\<exists>n \<in> set allSpaces. EqualFold ext (Name n) (SpaceNameOrID c))
            \<longrightarrow> (\<exists>s \<in> set allSpaces. EqualFold ext (Name s) (SpaceNameOrID c)
                                       \<and> ActiveSpace c' = Some s))"
proof -
  let ?byName = "find (\<lambda>s. EqualFold ext (Name s) (SpaceNameOrID c)) allSpaces"
  let ?byID = "find (\<lambda>s. EqualFold ext (ID s) (SpaceNameOrID c)) (rev allSpaces)"
  let ?target = "case ?byName of Some byName \<Rightarrow> Some byName | None \<Rightarrow> ?byID"
  have c1: "c1 = c\<lparr> SystemClient := Some systemClient \<rparr>"
    using assms(1,2) by (rule GetSystemClient_unscoped)
  have id1: "SpaceNameOrID c1 = SpaceNameOrID c"
    by (simp add: c1)
  have res: "GetSpacedClient_resolve ext systemClient c1 log1 =
               GetSpacedClient_lookup ext systemClient c1 log1"
    using assms(3) by (simp add: GetSpacedClient_resolve_def select_specified c1)
  have look: "GetSpacedClient_lookup ext systemClient c1 log1 =
     (case ?target of
        None \<Rightarrow>
          (Inl (ErrorString (''cannot find space '' @ [CHR 0x27] @ SpaceNameOrID c @ [CHR 0x27])), c1,
           log1 @ [CallGetAll systemClient])
      | Some foundSpace \<Rightarrow>
          (Inr (ID foundSpace),
           c1\<lparr> ActiveSpace := Some foundSpace, SpaceNameOrID := ID foundSpace \<rparr>,
           log1 @ [CallGetAll systemClient]))"
    using lookup_found[OF assms(4), of c1] by (simp only: id1)
  have first: "case ?target of
            None \<Rightarrow>
              r = Inl (ErrorString (''cannot find space '' @ [CHR 0x27] @ SpaceNameOrID c @ [CHR 0x27]))
          | Some resolved \<Rightarrow>
              ActiveSpace c' = Some resolved \<and> SpaceNameOrID c' = ID resolved
            \<and> log' = log1 @ [CallGetAll systemClient,
                              CallNewClient (HttpClient c) (ApiUrl c) (ApiKey c) (ID resolved)]
            \<and> r = (case NewClient ext (log1 @ [CallGetAll systemClient])
                            (HttpClient c) (ApiUrl c) (ApiKey c) (ID resolved) of
                     Inl err \<Rightarrow> Inl (External err)
                   | Inr scopedClient \<Rightarrow> Inr scopedClient)
            \<and> SpaceScopedClient c' = (case r of Inl err \<Rightarrow> None | Inr scopedClient \<Rightarrow> Some scopedClient)"
  proof (cases ?target)
    case None
    with res look have "GetSpacedClient_resolve ext systemClient c1 log1 =
          (Inl (ErrorString (''cannot find space '' @ [CHR 0x27] @ SpaceNameOrID c @ [CHR 0x27])), c1,
           log1 @ [CallGetAll systemClient])"
      by simp
    from GetSpacedClient_unfold[OF assms(1,2) this] assms(5) None show ?thesis by simp
  next
    case (Some s)
    with res look have "GetSpacedClient_resolve ext systemClient c1 log1 =
          (Inr (ID s), c1\<lparr> ActiveSpace := Some s, SpaceNameOrID := ID s \<rparr>,
           log1 @ [CallGetAll systemClient])"
      by simp
    from GetSpacedClient_unfold[OF assms(1,2) this] assms(1,5) Some show ?thesis
      by (auto simp: c1 split: sum.splits)
  qed
  have second: "(\<exists>n \<in> set allSpaces. EqualFold ext (Name n) (SpaceNameOrID c))
            \<longrightarrow> (\<exists>s \<in> set allSpaces. EqualFold ext (Name s) (SpaceNameOrID c)
                                       \<and> ActiveSpace c' = Some s)"
  proof
    assume "\<exists>n \<in> set allSpaces. EqualFold ext (Name n) (SpaceNameOrID c)"
    then obtain s where s: "?byName = Some s"
      by (cases ?byName) (auto simp: find_None_iff)
    then have "s \<in> set allSpaces" "EqualFold ext (Name s) (SpaceNameOrID c)"
      by (auto simp: find_Some_iff)
    moreover from first s have "ActiveSpace c' = Some s" by simp
    ultimately show "\<exists>s \<in> set allSpaces. EqualFold ext (Name s) (SpaceNameOrID c)
                                       \<and> ActiveSpace c' = Some s"
      by blast
  qed
  from first second show ?thesis by blast
qed


theorem GetSpacedClient_name_before_ID_witness:
  "EqualFold (server [space_default, space_second]) (ID space_default) ''spaces-1''
   \<and> ActiveSpace (fst (snd (GetSpacedClient (server [space_default, space_second])
                            (factory ''spaces-1'' None) []))) = Some space_second
   \<and> SpaceNameOrID (fst (snd (GetSpacedClient (server [space_default, space_second])
                            (factory ''spaces-1'' None) []))) = ''Spaces-2''
   \<and> fst (GetSpacedClient (server [space_default, space_second])
                            (factory ''spaces-1'' None) []) = Inr (ClientPtr 2)"
proof -
  let ?S = "server [space_default, space_second]"
  let ?F = "factory ''spaces-1'' None"
  have h1: "SpaceScopedClient ?F = None"
    by (simp add: factory_def)
  have h3: "SpaceNameOrID ?F \<noteq> []"
    by (simp add: factory_def)
  have h4: "Spaces_GetAll ?S [CallNewClient None (URL ''https://octopus.example'') ''API-KEY'' []]
              (ClientPtr 0) = Inr [space_default, space_second]"
    by (simp add: server_def)
  have h5: "GetSpacedClient ?S ?F [] =
              (fst (GetSpacedClient ?S ?F []), fst (snd (GetSpacedClient ?S ?F [])),
               snd (snd (GetSpacedClient ?S ?F [])))"
    by simp
  have byName: "find (\<lambda>s. EqualFold ?S (Name s) (SpaceNameOrID ?F)) [space_default, space_second]
                  = Some space_second"
    by (simp add: server_def factory_def space_default_def space_second_def
                  ascii_EqualFold_def ascii_lower_def)
  have byID: "EqualFold ?S (ID space_default) (SpaceNameOrID ?F)"
    by (simp add: server_def factory_def space_default_def ascii_EqualFold_def ascii_lower_def)
  from GetSpacedClient_name_before_ID [OF h1 fixture_system_client h3 h4 h5] byName byID
  show ?thesis
    by (simp add: server_def factory_def space_second_def)
qed

section \<open>No identifier, prompting enabled\<close>

text \<open>
  Claim C7. With no identifier requested, an asker present, no handle cached and the system
  handle available: a listing of exactly one space selects that space (lines 169-173) and
  no prompt is made during the call; when the ID of that space is not empty, it is the
  active space when \<open>GetSpacedClient\<close> returns, and the handle is requested for its ID. A
  listing of more than one space is followed at once by the single-select prompt over the
  listed spaces. A listing of no space is the error \<^verbatim>\<open>no spaces found\<close>.
\<close>

theorem GetSpacedClient_single_space_or_prompt:
  assumes "SpaceScopedClient c = None"
    and "GetSystemClient ext c log = (Inr systemClient, c1, log1)"
    and "SpaceNameOrID c = []"
    and "Ask c = Some ask"
    and "Spaces_GetAll ext log1 systemClient = Inr allSpaces"
    and "GetSpacedClient ext c log = (r, c', log')"
  shows "case allSpaces of
           [] \<Rightarrow> r = Inl (ErrorString ''no spaces found'')
         | [only] \<Rightarrow>
             \<not> list_ex is_prompt (drop (length log) log')
           \<and> GetSpacedClient_select ext systemClient c1 log1 =
               (Inr (ID only), c1\<lparr> ActiveSpace := Some only, SpaceNameOrID := ID only \<rparr>,
                log1 @ [CallGetAll systemClient])
           \<and> (ID only \<noteq> [] \<longrightarrow>
                 ActiveSpace c' = Some only \<and> SpaceNameOrID c' = ID only
               \<and> log' = log1 @ [CallGetAll systemClient,
                                 CallNewClient (HttpClient c) (ApiUrl c) (ApiKey c) (ID only)]
               \<and> r = (case NewClient ext (log1 @ [CallGetAll systemClient])
                               (HttpClient c) (ApiUrl c) (ApiKey c) (ID only) of
                        Inl err \<Rightarrow> Inl (External err)
                      | Inr scopedClient \<Rightarrow> Inr scopedClient))
         | _ \<Rightarrow>
             take 2 (drop (length log1) log') =
               [CallGetAll systemClient,
                CallSelectMap ask ''You have not specified a Space. Please select one:'' allSpaces]"
proof -
  have c1: "c1 = c\<lparr> SystemClient := Some systemClient \<rparr>"
    using assms(1,2) by (rule GetSystemClient_unscoped)
  have log1: "log1 = log \<or> log1 = log @ [CallNewClient (HttpClient c) (ApiUrl c) (ApiKey c) []]"
    using assms(1,2) by (rule GetSystemClient_unscoped)
  have f: "SpaceNameOrID c1 = []" "Ask c1 = Some ask" "HttpClient c1 = HttpClient c"
    "ApiUrl c1 = ApiUrl c" "ApiKey c1 = ApiKey c"
    using assms(3,4) by (simp_all add: c1)
  obtain rr c2 log2 where res: "GetSpacedClient_resolve ext systemClient c1 log1 = (rr, c2, log2)"
    by (cases "GetSpacedClient_resolve ext systemClient c1 log1") auto
  note unf = GetSpacedClient_unfold[OF assms(1,2) res]
  show ?thesis
  proof (cases allSpaces)
    case Nil
    with res f assms(5) have "rr = Inl (ErrorString ''no spaces found'')"
      by (simp add: GetSpacedClient_resolve_def GetSpacedClient_select_def)
    with unf assms(6) Nil show ?thesis by simp
  next
    case (Cons only rest)
    show ?thesis
    proof (cases rest)
      case Nil
      have sel: "GetSpacedClient_select ext systemClient c1 log1 =
               (Inr (ID only), c1\<lparr> ActiveSpace := Some only, SpaceNameOrID := ID only \<rparr>,
                log1 @ [CallGetAll systemClient])"
        using f assms(5) Cons Nil by (simp add: GetSpacedClient_select_def)
      have noprompt: "\<not> list_ex is_prompt (drop (length log) log')"
      proof (cases "ID only = []")
        case True
        with sel res have "GetSpacedClient_lookup ext systemClient
               (c1\<lparr> ActiveSpace := Some only, SpaceNameOrID := ID only \<rparr>)
               (log1 @ [CallGetAll systemClient]) = (rr, c2, log2)"
          by (simp add: GetSpacedClient_resolve_def)
        from lookup_log[OF this] have "log2 = log1 @ [CallGetAll systemClient, CallGetAll systemClient]"
          by simp
        with unf assms(6) log1 show ?thesis
          by (auto split: sum.splits)
      next
        case False
        with sel res have "log2 = log1 @ [CallGetAll systemClient]"
          by (simp add: GetSpacedClient_resolve_def)
        with unf assms(6) log1 show ?thesis
          by (auto split: sum.splits)
      qed
      have bound: "ID only \<noteq> [] \<longrightarrow>
                 ActiveSpace c' = Some only \<and> SpaceNameOrID c' = ID only
               \<and> log' = log1 @ [CallGetAll systemClient,
                                 CallNewClient (HttpClient c) (ApiUrl c) (ApiKey c) (ID only)]
               \<and> r = (case NewClient ext (log1 @ [CallGetAll systemClient])
                               (HttpClient c) (ApiUrl c) (ApiKey c) (ID only) of
                        Inl err \<Rightarrow> Inl (External err)
                      | Inr scopedClient \<Rightarrow> Inr scopedClient)"
      proof
        assume ne: "ID only \<noteq> []"
        with sel res have "rr = Inr (ID only)"
          "c2 = c1\<lparr> ActiveSpace := Some only, SpaceNameOrID := ID only \<rparr>"
          "log2 = log1 @ [CallGetAll systemClient]"
          by (simp_all add: GetSpacedClient_resolve_def)
        with unf assms(6) f show "ActiveSpace c' = Some only \<and> SpaceNameOrID c' = ID only
               \<and> log' = log1 @ [CallGetAll systemClient,
                                 CallNewClient (HttpClient c) (ApiUrl c) (ApiKey c) (ID only)]
               \<and> r = (case NewClient ext (log1 @ [CallGetAll systemClient])
                               (HttpClient c) (ApiUrl c) (ApiKey c) (ID only) of
                        Inl err \<Rightarrow> Inl (External err)
                      | Inr scopedClient \<Rightarrow> Inr scopedClient)"
          by (auto split: sum.splits)
      qed
      from sel noprompt bound Cons Nil show ?thesis by simp
    next
      case (Cons second more)
      let ?p = "CallSelectMap ask ''You have not specified a Space. Please select one:'' allSpaces"
      have "snd (snd (GetSpacedClient_select ext systemClient c1 log1)) =
               log1 @ [CallGetAll systemClient, ?p]"
        using f assms(5) \<open>allSpaces = only # rest\<close> Cons
        by (simp add: GetSpacedClient_select_def split: sum.splits)
      then obtain rs cs where sel: "GetSpacedClient_select ext systemClient c1 log1 =
               (rs, cs, log1 @ [CallGetAll systemClient, ?p])"
        by (cases "GetSpacedClient_select ext systemClient c1 log1") auto
      have "\<exists>more. log2 = log1 @ [CallGetAll systemClient, ?p] @ more"
      proof (cases rs)
        case (Inl e)
        with sel res have "log2 = log1 @ [CallGetAll systemClient, ?p] @ []"
          by (auto simp: GetSpacedClient_resolve_def)
        then show ?thesis by blast
      next
        case (Inr sid)
        show ?thesis
        proof (cases "sid = []")
          case True
          with sel res Inr have "GetSpacedClient_lookup ext systemClient cs
               (log1 @ [CallGetAll systemClient, ?p]) = (rr, c2, log2)"
            by (simp add: GetSpacedClient_resolve_def)
          from lookup_log[OF this] show ?thesis by simp
        next
          case False
          with sel res Inr have "log2 = log1 @ [CallGetAll systemClient, ?p] @ []"
            by (auto simp: GetSpacedClient_resolve_def)
          then show ?thesis by blast
        qed
      qed
      then obtain more where "log2 = log1 @ [CallGetAll systemClient, ?p] @ more" by blast
      with unf assms(6) have "\<exists>more. log' = log1 @ [CallGetAll systemClient, ?p] @ more"
        by (auto split: sum.splits)
      then have "take 2 (drop (length log1) log') = [CallGetAll systemClient, ?p]"
        by auto
      with \<open>allSpaces = only # rest\<close> Cons show ?thesis by simp
    qed
  qed
qed


theorem GetSpacedClient_single_space_or_prompt_witness:
  "ActiveSpace (fst (snd (GetSpacedClient (server [space_default])
                            (factory [] (Some survey_AskOne)) []))) = Some space_default
   \<and> \<not> list_ex is_prompt (snd (snd (GetSpacedClient (server [space_default])
                            (factory [] (Some survey_AskOne)) [])))
   \<and> take 2 (drop 1 (snd (snd (GetSpacedClient (server [space_default, space_second])
                            (factory [] (Some survey_AskOne)) [])))) =
       [CallGetAll (ClientPtr 0),
        CallSelectMap survey_AskOne ''You have not specified a Space. Please select one:''
          [space_default, space_second]]"
proof -
  let ?F = "factory [] (Some survey_AskOne)"
  let ?S1 = "server [space_default]"
  let ?S2 = "server [space_default, space_second]"
  let ?log1 = "[CallNewClient None (URL ''https://octopus.example'') ''API-KEY'' []]"
  have h1: "SpaceScopedClient ?F = None" and h3: "SpaceNameOrID ?F = []"
    and h4: "Ask ?F = Some survey_AskOne"
    by (simp_all add: factory_def)
  have one: "Spaces_GetAll ?S1 ?log1 (ClientPtr 0) = Inr [space_default]"
    by (simp add: server_def)
  have two: "Spaces_GetAll ?S2 ?log1 (ClientPtr 0) = Inr [space_default, space_second]"
    by (simp add: server_def)
  have r1: "GetSpacedClient ?S1 ?F [] =
              (fst (GetSpacedClient ?S1 ?F []), fst (snd (GetSpacedClient ?S1 ?F [])),
               snd (snd (GetSpacedClient ?S1 ?F [])))"
    by simp
  have r2: "GetSpacedClient ?S2 ?F [] =
              (fst (GetSpacedClient ?S2 ?F []), fst (snd (GetSpacedClient ?S2 ?F [])),
               snd (snd (GetSpacedClient ?S2 ?F [])))"
    by simp
  have ne: "ID space_default \<noteq> []"
    by (simp add: space_default_def)
  from GetSpacedClient_single_space_or_prompt [OF h1 fixture_system_client h3 h4 one r1]
       GetSpacedClient_single_space_or_prompt [OF h1 fixture_system_client h3 h4 two r2] ne
  show ?thesis by simp
qed

section \<open>A server without spaces\<close>

text \<open>
  Claim C3, as stated, fails: with an identifier requested and a listing of zero spaces the
  error is \<^verbatim>\<open>cannot find space 'Default'\<close> (line 213), not \<^verbatim>\<open>no spaces found\<close>.
\<close>

theorem GetSpacedClient_no_spaces_counterexample:
  "Spaces_GetAll (server []) [CallNewClient None (URL ''https://octopus.example'') ''API-KEY'' []]
      (ClientPtr 0) = Inr []
   \<and> fst (GetSpacedClient (server []) (factory ''Default'' (Some survey_AskOne)) []) =
       Inl (ErrorString (''cannot find space '' @ [CHR 0x27] @ ''Default'' @ [CHR 0x27]))
   \<and> fst (GetSpacedClient (server []) (factory ''Default'' (Some survey_AskOne)) []) \<noteq>
       Inl (ErrorString ''no spaces found'')"
  by (simp add: GetSpacedClient_def GetSystemClient_def GetSpacedClient_resolve_def
        GetSpacedClient_select_def GetSpacedClient_lookup_def GetSpacedClient_find_def
        server_def factory_def)

text \<open>
  Claim C3, amended. When no handle is cached, the system handle is available and the server
  lists zero spaces, \<open>GetSpacedClient\<close> always fails: with \<^verbatim>\<open>no spaces found\<close> when no
  identifier was requested and an asker is present; with \<^verbatim>\<open>cannot find space '<identifier>'\<close>
  when an identifier was requested, with or without an asker; and, with neither identifier
  nor asker, with the error of line 158, before any listing.
\<close>

theorem GetSpacedClient_no_spaces_listed:
  assumes "SpaceScopedClient c = None"
    and "GetSystemClient ext c log = (Inr systemClient, c1, log1)"
    and "Spaces_GetAll ext log1 systemClient = Inr []"
  shows "fst (GetSpacedClient ext c log) =
     (if SpaceNameOrID c = [] then
        (if Ask c = None
         then Inl (ErrorString ''space must be specified when not running interactively; please set the OCTOPUS_SPACE environment variable or specify --space on the command line'')
         else Inl (ErrorString ''no spaces found''))
      else Inl (ErrorString (''cannot find space '' @ [CHR 0x27] @ SpaceNameOrID c @ [CHR 0x27])))"
proof -
  have c1: "c1 = c\<lparr> SystemClient := Some systemClient \<rparr>"
    using assms(1,2) by (rule GetSystemClient_unscoped)
  have f: "SpaceNameOrID c1 = SpaceNameOrID c" "Ask c1 = Ask c"
    by (simp_all add: c1)
  obtain rr c2 log2 where res: "GetSpacedClient_resolve ext systemClient c1 log1 = (rr, c2, log2)"
    by (cases "GetSpacedClient_resolve ext systemClient c1 log1") auto
  have "rr =
     (if SpaceNameOrID c = [] then
        (if Ask c = None
         then Inl (ErrorString ''space must be specified when not running interactively; please set the OCTOPUS_SPACE environment variable or specify --space on the command line'')
         else Inl (ErrorString ''no spaces found''))
      else Inl (ErrorString (''cannot find space '' @ [CHR 0x27] @ SpaceNameOrID c @ [CHR 0x27])))"
    using res assms(3) f
    by (auto simp: GetSpacedClient_resolve_def GetSpacedClient_select_def lookup_found
             split: option.splits)
  with GetSpacedClient_unfold[OF assms(1,2) res] show ?thesis
    by (auto split: sum.splits)
qed

theorem GetSpacedClient_no_spaces_listed_witness:
  "fst (GetSpacedClient (server []) (factory [] (Some survey_AskOne)) []) =
       Inl (ErrorString ''no spaces found'')
   \<and> fst (GetSpacedClient (server []) (factory ''Default'' None) []) =
       Inl (ErrorString (''cannot find space '' @ [CHR 0x27] @ ''Default'' @ [CHR 0x27]))
   \<and> fst (GetSpacedClient (server []) (factory [] None) []) =
       Inl (ErrorString ''space must be specified when not running interactively; please set the OCTOPUS_SPACE environment variable or specify --space on the command line'')"
proof -
  have h1: "SpaceScopedClient (factory x a) = None" for x a
    by (simp add: factory_def)
  have h3: "Spaces_GetAll (server []) [CallNewClient None (URL ''https://octopus.example'') ''API-KEY'' []]
      (ClientPtr 0) = Inr []"
    by (simp add: server_def)
  from GetSpacedClient_no_spaces_listed [OF h1 fixture_system_client h3, of "[]" "Some survey_AskOne"]
       GetSpacedClient_no_spaces_listed [OF h1 fixture_system_client h3, of "''Default''" None]
       GetSpacedClient_no_spaces_listed [OF h1 fixture_system_client h3, of "[]" None]
  show ?thesis by (simp add: factory_def)
qed

section \<open>Errors of the calls to the server\<close>

text \<open>
  Claim C2, as stated, fails: when the listing made for the lookup by name or ID fails with
  \<open>err_refused\<close>, the caller gets a new error with the text
  \<^verbatim>\<open>cannot load spaces. Error: connection refused\<close> (line 194), not \<open>err_refused\<close> itself.
\<close>

theorem GetSpacedClient_listing_error_rephrased:
  "Spaces_GetAll server_listing_fails
      [CallNewClient None (URL ''https://octopus.example'') ''API-KEY'' []] (ClientPtr 0)
     = Inl err_refused
   \<and> fst (GetSpacedClient server_listing_fails (factory ''Default'' None) []) =
       Inl (ErrorString ''cannot load spaces. Error: connection refused'')
   \<and> fst (GetSpacedClient server_listing_fails (factory ''Default'' None) []) \<noteq>
       Inl (External err_refused)"
  by (simp add: GetSpacedClient_def GetSystemClient_def GetSpacedClient_resolve_def
        GetSpacedClient_select_def GetSpacedClient_lookup_def
        server_listing_fails_def server_def factory_def err_refused_def)

text \<open>
  Claim C2, amended. With no handle cached, an error of a call to the server reaches the
  caller of \<open>GetSpacedClient\<close> as the same error value when the call constructs the system
  handle, lists the spaces for the selection without identifier (line 161), or constructs the
  space-scoped handle; an error \<open>e\<close> of the listing made for the lookup by name or ID
  (line 192, reached whenever an identifier was requested, and in general whenever lines
  153-186 leave \<^verbatim>\<open>foundSpaceID\<close> empty) reaches the caller as a new error with the text
  \<^verbatim>\<open>cannot load spaces. Error: \<close> followed by the text of \<open>e\<close>.
\<close>

theorem GetSpacedClient_surfaces_errors:
  assumes "SpaceScopedClient c = None"
  shows "(SystemClient c = None
            \<and> NewClient ext log (HttpClient c) (ApiUrl c) (ApiKey c) [] = Inl e
          \<longrightarrow> fst (GetSpacedClient ext c log) = Inl (External e))
       \<and> (GetSystemClient ext c log = (Inr systemClient, c1, log1) \<longrightarrow>
            (SpaceNameOrID c = [] \<and> Ask c \<noteq> None \<and> Spaces_GetAll ext log1 systemClient = Inl e
              \<longrightarrow> fst (GetSpacedClient ext c log) = Inl (External e))
          \<and> (SpaceNameOrID c \<noteq> [] \<and> Spaces_GetAll ext log1 systemClient = Inl e
              \<longrightarrow> fst (GetSpacedClient ext c log) =
                    Inl (ErrorString (''cannot load spaces. Error: '' @ Error_text e)))
          \<and> (GetSpacedClient_select ext systemClient c1 log1 = (Inr [], c2, log2)
               \<and> Spaces_GetAll ext log2 systemClient = Inl e
              \<longrightarrow> fst (GetSpacedClient ext c log) =
                    Inl (ErrorString (''cannot load spaces. Error: '' @ Error_text e)))
          \<and> (GetSpacedClient_resolve ext systemClient c1 log1 = (Inr foundSpaceID, c3, log3)
               \<and> NewClient ext log3 (HttpClient c) (ApiUrl c) (ApiKey c) foundSpaceID = Inl e
              \<longrightarrow> fst (GetSpacedClient ext c log) = Inl (External e)))"
proof -
  have sys: "fst (GetSpacedClient ext c log) = Inl (External e)"
    if "SystemClient c = None" "NewClient ext log (HttpClient c) (ApiUrl c) (ApiKey c) [] = Inl e"
    using that assms by (simp add: GetSpacedClient_def GetSystemClient_def)
  have rest: "(SpaceNameOrID c = [] \<and> Ask c \<noteq> None \<and> Spaces_GetAll ext log1 systemClient = Inl e
              \<longrightarrow> fst (GetSpacedClient ext c log) = Inl (External e))
          \<and> (SpaceNameOrID c \<noteq> [] \<and> Spaces_GetAll ext log1 systemClient = Inl e
              \<longrightarrow> fst (GetSpacedClient ext c log) =
                    Inl (ErrorString (''cannot load spaces. Error: '' @ Error_text e)))
          \<and> (GetSpacedClient_select ext systemClient c1 log1 = (Inr [], c2, log2)
               \<and> Spaces_GetAll ext log2 systemClient = Inl e
              \<longrightarrow> fst (GetSpacedClient ext c log) =
                    Inl (ErrorString (''cannot load spaces. Error: '' @ Error_text e)))
          \<and> (GetSpacedClient_resolve ext systemClient c1 log1 = (Inr foundSpaceID, c3, log3)
               \<and> NewClient ext log3 (HttpClient c) (ApiUrl c) (ApiKey c) foundSpaceID = Inl e
              \<longrightarrow> fst (GetSpacedClient ext c log) = Inl (External e))"
    if g: "GetSystemClient ext c log = (Inr systemClient, c1, log1)"
  proof -
    have c1: "c1 = c\<lparr> SystemClient := Some systemClient \<rparr>"
      using assms g by (rule GetSystemClient_unscoped)
    have f: "SpaceNameOrID c1 = SpaceNameOrID c" "Ask c1 = Ask c" "HttpClient c1 = HttpClient c"
      "ApiUrl c1 = ApiUrl c" "ApiKey c1 = ApiKey c"
      by (simp_all add: c1)
    obtain rr cr lr where res: "GetSpacedClient_resolve ext systemClient c1 log1 = (rr, cr, lr)"
      by (cases "GetSpacedClient_resolve ext systemClient c1 log1") auto
    note unf = GetSpacedClient_unfold[OF assms g res]
    have a: "fst (GetSpacedClient ext c log) = Inl (External e)"
      if "SpaceNameOrID c = []" "Ask c \<noteq> None" "Spaces_GetAll ext log1 systemClient = Inl e"
    proof -
      from that res f have "rr = Inl (External e)"
        by (auto simp: GetSpacedClient_resolve_def GetSpacedClient_select_def)
      with unf show ?thesis by simp
    qed
    have b: "fst (GetSpacedClient ext c log) =
                    Inl (ErrorString (''cannot load spaces. Error: '' @ Error_text e))"
      if "GetSpacedClient_select ext systemClient c1 log1 = (Inr [], cs, ls)"
         "Spaces_GetAll ext ls systemClient = Inl e" for cs ls
    proof -
      from that res have "rr = Inl (ErrorString (''cannot load spaces. Error: '' @ Error_text e))"
        by (auto simp: GetSpacedClient_resolve_def GetSpacedClient_lookup_def)
      with unf show ?thesis by simp
    qed
    have b': "fst (GetSpacedClient ext c log) =
                    Inl (ErrorString (''cannot load spaces. Error: '' @ Error_text e))"
      if "SpaceNameOrID c \<noteq> []" "Spaces_GetAll ext log1 systemClient = Inl e"
    proof -
      from that f have "GetSpacedClient_select ext systemClient c1 log1 = (Inr [], c1, log1)"
        by (simp add: select_specified)
      from b[OF this that(2)] show ?thesis .
    qed
    have d: "fst (GetSpacedClient ext c log) = Inl (External e)"
      if "GetSpacedClient_resolve ext systemClient c1 log1 = (Inr foundSpaceID, c3, log3)"
         "NewClient ext log3 (HttpClient c) (ApiUrl c) (ApiKey c) foundSpaceID = Inl e"
    proof -
      from resolve_fields[OF that(1)] f
      have "HttpClient c3 = HttpClient c" "ApiUrl c3 = ApiUrl c" "ApiKey c3 = ApiKey c"
        by simp_all
      with GetSpacedClient_unfold[OF assms g that(1)] that(2) show ?thesis by simp
    qed
    from a b b' d show ?thesis by blast
  qed
  from sys rest show ?thesis by blast
qed

theorem GetSpacedClient_surfaces_errors_witness:
  "fst (GetSpacedClient server_down (factory ''Default'' None) []) = Inl (External err_refused)
   \<and> fst (GetSpacedClient server_listing_fails (factory [] (Some survey_AskOne)) []) =
       Inl (External err_refused)
   \<and> fst (GetSpacedClient server_listing_fails (factory ''Default'' None) []) =
       Inl (ErrorString ''cannot load spaces. Error: connection refused'')
   \<and> fst (GetSpacedClient (server_scoped_fails [space_default]) (factory ''default'' None) []) =
       Inl (External err_refused)"
proof -
  let ?log1 = "[CallNewClient None (URL ''https://octopus.example'') ''API-KEY'' []]"
  let ?sc = "ClientPtr 0"
  have h: "SpaceScopedClient (factory x a) = None" for x a
    by (simp add: factory_def)
  have f: "SystemClient (factory x a) = None" "HttpClient (factory x a) = None"
    "ApiUrl (factory x a) = URL ''https://octopus.example''" "ApiKey (factory x a) = ''API-KEY''"
    "SpaceNameOrID (factory x a) = x" "Ask (factory x a) = a" for x a
    by (simp_all add: factory_def)
  have down: "NewClient server_down [] None (URL ''https://octopus.example'') ''API-KEY'' []
                = Inl err_refused"
    by (simp add: server_down_def)
  have listing: "Spaces_GetAll server_listing_fails ?log1 ?sc = Inl err_refused"
    by (simp add: server_listing_fails_def)
  have sel: "GetSpacedClient_select server_listing_fails ?sc
               ((factory ''Default'' None)\<lparr> SystemClient := Some ?sc \<rparr>) ?log1
             = (Inr [], (factory ''Default'' None)\<lparr> SystemClient := Some ?sc \<rparr>, ?log1)"
    by (simp add: select_specified factory_def)
  have res: "GetSpacedClient_resolve (server_scoped_fails [space_default]) ?sc
               ((factory ''default'' None)\<lparr> SystemClient := Some ?sc \<rparr>) ?log1
             = (Inr ''Spaces-1'',
                (factory ''default'' None)\<lparr> SystemClient := Some ?sc,
                   ActiveSpace := Some space_default, SpaceNameOrID := ''Spaces-1'' \<rparr>,
                ?log1 @ [CallGetAll ?sc])"
    by (simp add: GetSpacedClient_resolve_def GetSpacedClient_select_def GetSpacedClient_lookup_def
          GetSpacedClient_find_def server_scoped_fails_def server_def factory_def space_default_def
          ascii_EqualFold_def ascii_lower_def)
  have scoped: "NewClient (server_scoped_fails [space_default]) (?log1 @ [CallGetAll ?sc])
                  None (URL ''https://octopus.example'') ''API-KEY'' ''Spaces-1'' = Inl err_refused"
    by (simp add: server_scoped_fails_def)
  from GetSpacedClient_surfaces_errors [where c = "factory ''Default'' None" and ext = server_down and log = "[]"
             and e = err_refused, OF h]
  have 1: "fst (GetSpacedClient server_down (factory ''Default'' None) []) = Inl (External err_refused)"
    using down by (simp add: f)
  from GetSpacedClient_surfaces_errors [where c = "factory [] (Some survey_AskOne)" and ext = server_listing_fails
             and log = "[]" and e = err_refused and systemClient = ?sc and ?log1.0 = ?log1, OF h]
  have 2: "fst (GetSpacedClient server_listing_fails (factory [] (Some survey_AskOne)) []) =
       Inl (External err_refused)"
    using listing fixture_system_client_listing_fails by (simp add: f)
  from GetSpacedClient_surfaces_errors [where c = "factory ''Default'' None" and ext = server_listing_fails
             and log = "[]" and e = err_refused and systemClient = ?sc and ?log1.0 = ?log1
             and ?c1.0 = "(factory ''Default'' None)\<lparr> SystemClient := Some ?sc \<rparr>"
             and ?c2.0 = "(factory ''Default'' None)\<lparr> SystemClient := Some ?sc \<rparr>"
             and ?log2.0 = ?log1, OF h]
  have 3: "fst (GetSpacedClient server_listing_fails (factory ''Default'' None) []) =
       Inl (ErrorString ''cannot load spaces. Error: connection refused'')"
    using listing sel fixture_system_client_listing_fails by (simp add: f err_refused_def)
  from GetSpacedClient_surfaces_errors [where c = "factory ''default'' None" and ext = "server_scoped_fails [space_default]"
             and log = "[]" and e = err_refused and systemClient = ?sc and ?log1.0 = ?log1
             and ?c1.0 = "(factory ''default'' None)\<lparr> SystemClient := Some ?sc \<rparr>"
             and foundSpaceID = "''Spaces-1''"
             and ?c3.0 = "(factory ''default'' None)\<lparr> SystemClient := Some ?sc,
                   ActiveSpace := Some space_default, SpaceNameOrID := ''Spaces-1'' \<rparr>"
             and ?log3.0 = "?log1 @ [CallGetAll ?sc]", OF h]
  have 4: "fst (GetSpacedClient (server_scoped_fails [space_default]) (factory ''default'' None) []) =
       Inl (External err_refused)"
    using res scoped fixture_system_client_scoped_fails by (simp add: f)
  from 1 2 3 4 show ?thesis by blast
qed

section \<open>The two handles are never cached together\<close>

text \<open>
  Claim C10. In every state reached from a factory made by \<open>NewClientFactory\<close> through any
  sequence of \<open>GetSystemClient\<close>, \<open>GetSpacedClient\<close>, \<open>GetActiveSpace\<close> and
  \<open>SetSpaceNameOrId\<close> calls, against any server, the system handle and the space-scoped
  handle are not both cached: whenever a space-scoped handle is cached, the system handle
  field is empty.
\<close>

theorem handles_never_both_cached:
  assumes "NewClientFactory ext httpClient host apiKey spaceNameOrID asker = Inr c0"
    and "run ext ops (c0, log0) = (c, log)"
  shows "\<not> (SystemClient c \<noteq> None \<and> SpaceScopedClient c \<noteq> None)
       \<and> (SpaceScopedClient c \<noteq> None \<longrightarrow> SystemClient c = None)"
proof -
  from assms(1) have "SpaceScopedClient c0 = None"
    by (auto simp: NewClientFactory_def split: sum.splits)
  then have "SpaceScopedClient c0 \<noteq> None \<longrightarrow> SystemClient c0 = None" by simp
  from run_handles[OF this assms(2)] show ?thesis by auto
qed

theorem handles_never_both_cached_witness:
  "SystemClient (fst (run (server [space_default]) [OpGetSystemClient] (factory ''Default'' None, [])))
     = Some (ClientPtr 0)
   \<and> SpaceScopedClient (fst (run (server [space_default])
         [OpGetSystemClient, OpGetSpacedClient, OpGetSystemClient] (factory ''Default'' None, [])))
     = Some (ClientPtr 2)
   \<and> SystemClient (fst (run (server [space_default])
         [OpGetSystemClient, OpGetSpacedClient, OpGetSystemClient] (factory ''Default'' None, [])))
     = None"
proof -
  let ?S = "server [space_default]"
  let ?ops = "[OpGetSystemClient, OpGetSpacedClient, OpGetSystemClient]"
  have init: "NewClientFactory ?S None ''https://octopus.example'' ''API-KEY'' ''Default'' None
                = Inr (factory ''Default'' None)"
    by (simp add: NewClientFactory_def server_def factory_def)
  have r: "run ?S ?ops (factory ''Default'' None, []) =
             (fst (run ?S ?ops (factory ''Default'' None, [])),
              snd (run ?S ?ops (factory ''Default'' None, [])))"
    by simp
  have first: "SystemClient (fst (run ?S [OpGetSystemClient] (factory ''Default'' None, [])))
     = Some (ClientPtr 0)"
    by (simp add: fixture_system_client)
  have scoped: "SpaceScopedClient (fst (run ?S ?ops (factory ''Default'' None, []))) = Some (ClientPtr 2)"
    by (simp add: GetSpacedClient_def GetSystemClient_def GetSpacedClient_resolve_def
          GetSpacedClient_select_def GetSpacedClient_lookup_def GetSpacedClient_find_def
          server_def factory_def space_default_def ascii_EqualFold_def ascii_lower_def)
  from handles_never_both_cached [OF init r] first scoped show ?thesis by simp
qed

section \<open>No identifier and no asker\<close>

text \<open>
  Claim C4. In every state of a factory (reached from \<open>NewClientFactory\<close> through any
  sequence of calls, the server listing spaces with non-empty IDs) in which the requested
  identifier is empty and there is no asker, \<open>GetSpacedClient\<close> returns an error: the one
  of line 158, or the error of the construction of the system handle when that fails
  first. It selects nothing: active space and identifier stay as they were, no handle is
  cached, and the call makes no listing and no prompt.
\<close>

theorem GetSpacedClient_not_interactive_fails:
  assumes "ids_nonempty ext"
    and "NewClientFactory ext httpClient host apiKey spaceNameOrID asker = Inr c0"
    and "run ext ops (c0, log0) = (c, log)"
    and "SpaceNameOrID c = []" and "Ask c = None"
    and "GetSpacedClient ext c log = (r, c', log')"
  shows "(r = Inl (ErrorString ''space must be specified when not running interactively; please set the OCTOPUS_SPACE environment variable or specify --space on the command line'')
          \<or> (\<exists>e. r = Inl (External e) \<and> SystemClient c = None
                 \<and> NewClient ext log (HttpClient c) (ApiUrl c) (ApiKey c) [] = Inl e))
       \<and> ActiveSpace c' = ActiveSpace c \<and> SpaceNameOrID c' = [] \<and> SpaceScopedClient c' = None
       \<and> \<not> list_ex is_listing (drop (length log) log')
       \<and> \<not> list_ex is_prompt (drop (length log) log')"
proof -
  from assms(2) have "SpaceScopedClient c0 = None"
    by (auto simp: NewClientFactory_def split: sum.splits)
  then have "SpaceScopedClient c0 \<noteq> None \<longrightarrow> SpaceNameOrID c0 \<noteq> []" by simp
  from run_identifier[OF assms(1) this assms(3)] assms(4) have "SpaceScopedClient c = None"
    by auto
  from GetSpacedClient_no_identifier_no_asker[OF this assms(4,5,6)] show ?thesis .
qed

theorem GetSpacedClient_not_interactive_fails_witness:
  "fst (GetSpacedClient (server [space_default])
          (SetSpaceNameOrId [] ((factory ''Default'' None)\<lparr> SystemClient := Some (ClientPtr 0) \<rparr>))
          [CallNewClient None (URL ''https://octopus.example'') ''API-KEY'' []])
   = Inl (ErrorString ''space must be specified when not running interactively; please set the OCTOPUS_SPACE environment variable or specify --space on the command line'')"
proof -
  let ?S = "server [space_default]"
  let ?ops = "[OpGetSystemClient, OpSetSpaceNameOrId []]"
  let ?c = "SetSpaceNameOrId [] ((factory ''Default'' None)\<lparr> SystemClient := Some (ClientPtr 0) \<rparr>)"
  let ?log = "[CallNewClient None (URL ''https://octopus.example'') ''API-KEY'' []]"
  have ids: "ids_nonempty ?S"
    by (simp add: ids_nonempty_def server_def space_default_def)
  have init: "NewClientFactory ?S None ''https://octopus.example'' ''API-KEY'' ''Default'' None
                = Inr (factory ''Default'' None)"
    by (simp add: NewClientFactory_def server_def factory_def)
  have r: "run ?S ?ops (factory ''Default'' None, []) = (?c, ?log)"
    by (simp add: fixture_system_client)
  have h4: "SpaceNameOrID ?c = []" and h5: "Ask ?c = None"
    by (simp_all add: SetSpaceNameOrId_def factory_def)
  have h6: "GetSpacedClient ?S ?c ?log =
              (fst (GetSpacedClient ?S ?c ?log), fst (snd (GetSpacedClient ?S ?c ?log)),
               snd (snd (GetSpacedClient ?S ?c ?log)))"
    by simp
  have up: "NewClient ?S l h u k i \<noteq> Inl e" for l h u k i e
    by (simp add: server_def)
  from GetSpacedClient_not_interactive_fails [OF ids init r h4 h5 h6] up show ?thesis by blast
qed

section \<open>Replacing the requested identifier\<close>

text \<open>
  Claim C5, as stated, fails on "until the next successful \<open>GetSpacedClient\<close>": after the
  reset, a \<open>GetSpacedClient\<close> whose lookup succeeds and whose handle construction fails
  returns an error, and \<open>GetActiveSpace\<close> returns the space found (lines 216 and 221-224).
\<close>

theorem SetSpaceNameOrId_failed_call_sets_space:
  "fst (GetSpacedClient (server_scoped_fails [space_default])
          (SetSpaceNameOrId ''Default'' (factory ''Old'' None)) []) = Inl (External err_refused)
   \<and> GetActiveSpace (fst (snd (GetSpacedClient (server_scoped_fails [space_default])
          (SetSpaceNameOrId ''Default'' (factory ''Old'' None)) []))) = Some space_default"
  by (simp add: GetSpacedClient_def GetSystemClient_def GetSpacedClient_resolve_def
        GetSpacedClient_select_def GetSpacedClient_lookup_def GetSpacedClient_find_def
        GetActiveSpace_def SetSpaceNameOrId_def server_scoped_fails_def server_def factory_def
        space_default_def ascii_EqualFold_def ascii_lower_def)

text \<open>
  Claim C5, amended. After \<open>SetSpaceNameOrId x\<close> the system handle, the space-scoped handle
  and the resolved space are cleared and the requested identifier is \<open>x\<close>;
  \<open>GetActiveSpace\<close> returns nothing, and so it does after any calls of \<open>GetSystemClient\<close>
  and \<open>GetActiveSpace\<close>, that is until the next call of \<open>GetSpacedClient\<close>; that call
  finds no cached handle, and when it succeeds it has listed the spaces again and has
  stored the space it resolved.
\<close>

theorem SetSpaceNameOrId_resets:
  assumes "set ops \<subseteq> {OpGetSystemClient, OpGetActiveSpace}"
    and "run ext ops (SetSpaceNameOrId x c, log) = (c2, log2)"
    and "GetSpacedClient ext c2 log2 = (r, c3, log3)"
  shows "SystemClient (SetSpaceNameOrId x c) = None
       \<and> SpaceScopedClient (SetSpaceNameOrId x c) = None
       \<and> ActiveSpace (SetSpaceNameOrId x c) = None
       \<and> SpaceNameOrID (SetSpaceNameOrId x c) = x
       \<and> GetActiveSpace (SetSpaceNameOrId x c) = None
       \<and> GetActiveSpace c2 = None \<and> SpaceScopedClient c2 = None \<and> SpaceNameOrID c2 = x
       \<and> (\<forall>h. r = Inr h \<longrightarrow>
             list_ex is_listing (drop (length log2) log3) \<and> GetActiveSpace c3 \<noteq> None)"
proof -
  have reset: "SystemClient (SetSpaceNameOrId x c) = None"
    "SpaceScopedClient (SetSpaceNameOrId x c) = None"
    "ActiveSpace (SetSpaceNameOrId x c) = None"
    "SpaceNameOrID (SetSpaceNameOrId x c) = x"
    by (simp_all add: SetSpaceNameOrId_def)
  from run_before_GetSpacedClient[OF assms(1,2)] reset
  have c2: "ActiveSpace c2 = None" "SpaceScopedClient c2 = None" "SpaceNameOrID c2 = x"
    by simp_all
  have "list_ex is_listing (drop (length log2) log3) \<and> GetActiveSpace c3 \<noteq> None" if "r = Inr h" for h
    using GetSpacedClient_success_looks_up[OF c2(2) assms(3)[unfolded that]]
    by (simp add: GetActiveSpace_def)
  with reset c2 show ?thesis by (simp add: GetActiveSpace_def)
qed

theorem SetSpaceNameOrId_resets_witness:
  "GetActiveSpace factory_bound = Some space_second
   \<and> GetActiveSpace (SetSpaceNameOrId ''Default'' factory_bound) = None
   \<and> GetActiveSpace (fst (run (server [space_default, space_second])
         [OpGetActiveSpace, OpGetSystemClient] (SetSpaceNameOrId ''Default'' factory_bound, []))) = None
   \<and> fst (GetSpacedClient (server [space_default, space_second])
         (fst (run (server [space_default, space_second])
            [OpGetActiveSpace, OpGetSystemClient] (SetSpaceNameOrId ''Default'' factory_bound, [])))
         (snd (run (server [space_default, space_second])
            [OpGetActiveSpace, OpGetSystemClient] (SetSpaceNameOrId ''Default'' factory_bound, []))))
       = Inr (ClientPtr 2)
   \<and> list_ex is_listing (drop 1 (snd (snd (GetSpacedClient (server [space_default, space_second])
         (fst (run (server [space_default, space_second])
            [OpGetActiveSpace, OpGetSystemClient] (SetSpaceNameOrId ''Default'' factory_bound, [])))
         (snd (run (server [space_default, space_second])
            [OpGetActiveSpace, OpGetSystemClient] (SetSpaceNameOrId ''Default'' factory_bound, []))))))) "
proof -
  let ?S = "server [space_default, space_second]"
  let ?ops = "[OpGetActiveSpace, OpGetSystemClient]"
  let ?run = "run ?S ?ops (SetSpaceNameOrId ''Default'' factory_bound, [])"
  let ?c2 = "(SetSpaceNameOrId ''Default'' factory_bound)\<lparr> SystemClient := Some (ClientPtr 0) \<rparr>"
  let ?log2 = "[CallNewClient None (URL ''https://octopus.example'') ''API-KEY'' []]"
  have h1: "set ?ops \<subseteq> {OpGetSystemClient, OpGetActiveSpace}"
    by simp
  have run: "?run = (?c2, ?log2)"
    by (simp add: GetSystemClient_def SetSpaceNameOrId_def factory_bound_def server_def)
  have h3: "GetSpacedClient ?S ?c2 ?log2 =
              (fst (GetSpacedClient ?S ?c2 ?log2), fst (snd (GetSpacedClient ?S ?c2 ?log2)),
               snd (snd (GetSpacedClient ?S ?c2 ?log2)))"
    by simp
  have before: "GetActiveSpace factory_bound = Some space_second"
    by (simp add: GetActiveSpace_def factory_bound_def)
  have ok: "fst (GetSpacedClient ?S ?c2 ?log2) = Inr (ClientPtr 2)"
    by (simp add: GetSpacedClient_def GetSystemClient_def GetSpacedClient_resolve_def
          GetSpacedClient_select_def GetSpacedClient_lookup_def GetSpacedClient_find_def
          SetSpaceNameOrId_def factory_bound_def server_def space_default_def space_second_def
          ascii_EqualFold_def ascii_lower_def)
  from SetSpaceNameOrId_resets [OF h1 run h3] before ok show ?thesis
    unfolding run by simp
qed

section \<open>The factory from the environment\<close>

text \<open>
  Claim C9, as stated, fails on "exactly when": with both mandatory variables set,
  construction still fails when \<^verbatim>\<open>url.Parse\<close> rejects the host (lines 72-75), as it does for
  \<^verbatim>\<open>127.0.0.1:8080\<close>.
\<close>

theorem NewClientFactoryFromEnvironment_bad_host:
  "Getenv env_bad_host ''OCTOPUS_HOST'' \<noteq> []
   \<and> Getenv env_bad_host ''OCTOPUS_API_KEY'' \<noteq> []
   \<and> NewClientFactoryFromEnvironment (server []) env_bad_host = Inl (External err_parse)"
  by (simp add: NewClientFactoryFromEnvironment_def ValidateMandatoryEnvironment_def
        multierror_Append_def ErrorOrNil_def NewClientFactory_def LookupEnv_def Getenv_def
        env_bad_host_def server_def)

text \<open>
  Claim C9, amended. Construction from the environment fails with the validation error
  exactly when \<^verbatim>\<open>OCTOPUS_HOST\<close> or \<^verbatim>\<open>OCTOPUS_API_KEY\<close> is empty or unset, and that error
  names each missing variable and no other. With both set it fails only when the host does
  not parse as a URL, with the error of \<^verbatim>\<open>url.Parse\<close>, and otherwise gives a factory with
  no handle and no space cached. \<^verbatim>\<open>OCTOPUS_SPACE\<close> may be missing: the requested identifier
  is then empty. The factory has no asker exactly when \<^verbatim>\<open>CI\<close> is set, to whatever value,
  and the asker \<^verbatim>\<open>survey.AskOne\<close> otherwise.
\<close>

theorem NewClientFactoryFromEnvironment_outcome:
  "NewClientFactoryFromEnvironment ext env =
     (if Getenv env ''OCTOPUS_HOST'' = [] \<or> Getenv env ''OCTOPUS_API_KEY'' = []
      then Inl (MultiError
             ((if Getenv env ''OCTOPUS_HOST'' = [] then [OsEnvironmentError ''OCTOPUS_HOST''] else [])
            @ (if Getenv env ''OCTOPUS_API_KEY'' = [] then [OsEnvironmentError ''OCTOPUS_API_KEY''] else [])))
      else (case url_Parse ext (Getenv env ''OCTOPUS_HOST'') of
              Inl err \<Rightarrow> Inl (External err)
            | Inr hostUrl \<Rightarrow>
                Inr \<lparr> HttpClient = None, SystemClient = None, SpaceScopedClient = None,
                      ApiUrl = hostUrl, ApiKey = Getenv env ''OCTOPUS_API_KEY'',
                      SpaceNameOrID = Getenv env ''OCTOPUS_SPACE'', ActiveSpace = None,
                      Ask = (if env ''CI'' = None then Some survey_AskOne else None) \<rparr>))"
  by (auto simp: NewClientFactoryFromEnvironment_def ValidateMandatoryEnvironment_def
        multierror_Append_def ErrorOrNil_def NewClientFactory_def LookupEnv_def Let_def
      split: option.splits sum.splits)

theorem NewClientFactoryFromEnvironment_outcome_witness:
  "NewClientFactoryFromEnvironment (server []) env_empty =
     Inl (MultiError [OsEnvironmentError ''OCTOPUS_HOST'', OsEnvironmentError ''OCTOPUS_API_KEY''])
   \<and> NewClientFactoryFromEnvironment (server []) env_no_key =
     Inl (MultiError [OsEnvironmentError ''OCTOPUS_API_KEY''])
   \<and> NewClientFactoryFromEnvironment (server []) env_ci = Inr (factory [] None)
   \<and> NewClientFactoryFromEnvironment (server []) env_terminal = Inr (factory [] (Some survey_AskOne))"
  using NewClientFactoryFromEnvironment_outcome [of "server []" env_empty] NewClientFactoryFromEnvironment_outcome [of "server []" env_no_key]
        NewClientFactoryFromEnvironment_outcome [of "server []" env_ci] NewClientFactoryFromEnvironment_outcome [of "server []" env_terminal]
  by (simp add: Getenv_def env_empty_def env_no_key_def env_ci_def env_terminal_def
        server_def factory_def)

end
